theory Spec2Isabelle
  imports Complex_Main
begin

section \<open>Numbers, strings and constants\<close>

text \<open>
  The editor is a TypeScript/React program.  Its \<^verbatim>\<open>number\<close> values are modelled as ideal
  real numbers (\<^typ>\<open>real\<close>), node ids as integers, strings as \<^typ>\<open>string\<close> whose
  characters stand for the code units of the label.  The running application is
  \<^verbatim>\<open>src/App.tsx\<close> (storage key \<^verbatim>\<open>mindmap_v16_final\<close>); the repository also carries an
  earlier complete copy of the component (storage key \<^verbatim>\<open>mindmap_v14\<close>, stored behind
  \<^verbatim>\<open>src/types/index.ts\<close>) and the extracted module \<^verbatim>\<open>src/utils/layout.ts\<close>.  Where these
  differ, the definition taken from \<^verbatim>\<open>App.tsx\<close> keeps the source name and the other one
  carries the suffix \<open>_v14\<close> or \<open>_layout\<close>.
\<close>

definition BASE_W :: real where "BASE_W = 120"
definition BASE_H :: real where "BASE_H = 64"
definition DRAG_THRESHOLD :: real where "DRAG_THRESHOLD = 16"
definition CHILD_RADIUS :: real where "CHILD_RADIUS = 160"
definition GOLDEN_ANGLE :: real where "GOLDEN_ANGLE = pi * (3 - sqrt 5)"

definition clamp :: "real \<Rightarrow> real \<Rightarrow> real \<Rightarrow> real" where
  "clamp v a b = max a (min b v)"

text \<open>\<^verbatim>\<open>Math.round\<close> rounds half up; \<^verbatim>\<open>Math.ceil\<close> is the ceiling.\<close>

definition Math_round :: "real \<Rightarrow> real" where
  "Math_round v = of_int \<lfloor>v + 1 / 2\<rfloor>"

definition Math_ceil :: "real \<Rightarrow> real" where
  "Math_ceil v = of_int \<lceil>v\<rceil>"

definition Math_hypot :: "real \<Rightarrow> real \<Rightarrow> real" where
  "Math_hypot a b = sqrt (a * a + b * b)"

definition approxTextWidth :: "string \<Rightarrow> real \<Rightarrow> real" where
  "approxTextWidth text fontSize = real (length text) * fontSize * 0.6"

text \<open>The regular expression class \<^verbatim>\<open>\s\<close>, on the characters a \<^typ>\<open>char\<close> can hold.\<close>

definition isSpace :: "char \<Rightarrow> bool" where
  "isSpace c = ((of_char c :: nat) \<in> {9, 10, 11, 12, 13, 32, 160})"

text \<open>\<^verbatim>\<open>s.split(/\s+/)\<close>: the pieces between maximal runs of white space, empty pieces kept.\<close>

function splitWs :: "string \<Rightarrow> string \<Rightarrow> string list" where
  "splitWs cur [] = [cur]"
| "splitWs cur (c # cs) =
     (if isSpace c then cur # splitWs [] (dropWhile isSpace cs)
      else splitWs (cur @ [c]) cs)"
  by pat_completeness auto
termination
  by (relation "measure (\<lambda>(cur, s). length s)")
     (auto simp: le_imp_less_Suc length_dropWhile_le)

text \<open>\<^verbatim>\<open>label.split(/\s+/).filter(Boolean)\<close>\<close>

definition wordsOf :: "string \<Rightarrow> string list" where
  "wordsOf label = filter (\<lambda>w. w \<noteq> []) (splitWs [] label)"

text \<open>\<^verbatim>\<open>label.replace(/\s+/g, " ")\<close> and \<^verbatim>\<open>trim()\<close>\<close>

function collapseWs :: "string \<Rightarrow> string" where
  "collapseWs [] = []"
| "collapseWs (c # cs) =
     (if isSpace c then CHR '' '' # collapseWs (dropWhile isSpace cs)
      else c # collapseWs cs)"
  by pat_completeness auto
termination
  by (relation "measure length") (auto simp: le_imp_less_Suc length_dropWhile_le)

definition trim :: "string \<Rightarrow> string" where
  "trim s = rev (dropWhile isSpace (rev (dropWhile isSpace s)))"

section \<open>Nodes and edges\<close>

record MindNode =
  node_id :: int
  node_label :: string
  node_x :: real
  node_y :: real
  node_w :: real
  node_h :: real
  strokeColor :: string
  fillColor :: "string option"
  bold :: "bool option"

record Link =
  link_id :: real
  source :: int
  target :: int
  link_label :: "string option"
  dashed :: "bool option"
  arrow :: "bool option"

section \<open>Label layout\<close>

record Layout =
  lay_lines :: "string list"
  lay_width :: real
  lay_height :: real
  lay_lineHeight :: real
  lay_paddingX :: real
  lay_paddingY :: real
  lay_fontSize :: real

definition maxLines :: nat where "maxLines = 3"
definition paddingX :: real where "paddingX = 16"
definition paddingY :: real where "paddingY = 12"

text \<open>One turn of the \<^verbatim>\<open>for (const w of ...)\<close> loop of \<^verbatim>\<open>rebuild\<close>, on the pair
  (\<^verbatim>\<open>lines\<close>, \<^verbatim>\<open>current\<close>).\<close>

definition wrapStep :: "real \<Rightarrow> real \<Rightarrow> string list \<times> string \<Rightarrow> string \<Rightarrow> string list \<times> string" where
  "wrapStep baseFont width st w =
     (case st of (lines, current) \<Rightarrow>
        let test = (if current \<noteq> [] then current @ '' '' @ w else w) in
        if approxTextWidth test baseFont \<le> width - paddingX * 2 then (lines, test)
        else ((if current \<noteq> [] then lines @ [current] else lines), w))"


definition wrapLines :: "string \<Rightarrow> real \<Rightarrow> real \<Rightarrow> string list" where
  "wrapLines label baseFont width =
     (let ws = wordsOf label;
          (lines, current) = foldl (wrapStep baseFont width) ([], []) (if ws \<noteq> [] then ws else [label])
      in if current \<noteq> [] then lines @ [current] else lines)"

text \<open>The closure \<^verbatim>\<open>rebuild\<close>: it returns its verdict with the new \<^verbatim>\<open>lines\<close> and \<^verbatim>\<open>width\<close>.\<close>

definition rebuild :: "string \<Rightarrow> real \<Rightarrow> real \<Rightarrow> bool \<times> string list \<times> real" where
  "rebuild label baseFont width =
     (let lines = wrapLines label baseFont width in
      if length lines > maxLines then
        let n = length (trim (collapseWs label));
            textLen = (if n = 0 then 1 else n);
            targetCharsPerLine = Math_ceil (real textLen / real maxLines)
        in (False, lines, max width (Math_ceil (targetCharsPerLine * baseFont * 0.6 + paddingX * 2)))
      else (True, lines, width))"

text \<open>\<^verbatim>\<open>for (let i = 0; i < 6; i++) { if (rebuild()) break; }\<close> with the remaining number of
  turns as first argument.\<close>

fun rebuildLoop :: "nat \<Rightarrow> string \<Rightarrow> real \<Rightarrow> string list \<times> real \<Rightarrow> string list \<times> real" where
  "rebuildLoop 0 label baseFont (lines, width) = (lines, width)"
| "rebuildLoop (Suc k) label baseFont (lines, width) =
     (case rebuild label baseFont width of
        (ok, lines', width') \<Rightarrow>
          if ok then (lines', width') else rebuildLoop k label baseFont (lines', width'))"

text \<open>\<^verbatim>\<open>Math.max(...lines.map(t => approxTextWidth(t, baseFont)), 0)\<close>\<close>

definition maxTextW :: "string list \<Rightarrow> real \<Rightarrow> real" where
  "maxTextW lines baseFont = foldl max 0 (map (\<lambda>t. approxTextWidth t baseFont) lines)"

text \<open>\<^verbatim>\<open>layoutLabel\<close> of \<^verbatim>\<open>utils/layout.ts\<close>: it returns \<^verbatim>\<open>lines\<close> as they are.\<close>

definition layoutLabel_layout :: "string \<Rightarrow> real \<Rightarrow> real \<Rightarrow> Layout" where
  "layoutLabel_layout label baseFont minW =
     (let lineHeight = Math_round (baseFont * 1.15);
          (lines, width) = rebuildLoop 6 label baseFont ([], max minW BASE_W);
          textW = maxTextW lines baseFont;
          width2 = max width (Math_ceil (textW + paddingX * 2));
          height = max BASE_H (Math_ceil (real (length lines) * lineHeight + paddingY * 2))
      in \<lparr> lay_lines = lines, lay_width = width2, lay_height = height,
           lay_lineHeight = lineHeight, lay_paddingX = paddingX, lay_paddingY = paddingY,
           lay_fontSize = baseFont \<rparr>)"

text \<open>\<^verbatim>\<open>layoutLabel\<close> of \<^verbatim>\<open>App.tsx\<close>: the same, but an empty \<^verbatim>\<open>lines\<close> is returned as
  \<^verbatim>\<open>[""]\<close>.\<close>

definition layoutLabel :: "string \<Rightarrow> real \<Rightarrow> real \<Rightarrow> Layout" where
  "layoutLabel label baseFont minW =
     (let L = layoutLabel_layout label baseFont minW
      in L \<lparr> lay_lines := (if lay_lines L \<noteq> [] then lay_lines L else [[]]) \<rparr>)"

text \<open>\<^verbatim>\<open>resizeNodeForLabel\<close> of \<^verbatim>\<open>App.tsx\<close> (lines 433--437): the minimum width handed to the
  layout is the constant \<^verbatim>\<open>BASE_W\<close>.\<close>

definition resizeNodeForLabel :: "MindNode \<Rightarrow> MindNode" where
  "resizeNodeForLabel n =
     (let baseFont = clamp (Math_round (node_h n * 0.35)) 12 20;
          L = layoutLabel (node_label n) baseFont BASE_W
      in n \<lparr> node_w := lay_width L, node_h := lay_height L \<rparr>)"

text \<open>\<^verbatim>\<open>resizeNodeForLabel\<close> of \<^verbatim>\<open>utils/layout.ts\<close> (lines 65--69): the minimum width is
  the node's own width, and the font size is rounded after clamping.\<close>

definition resizeNodeForLabel_layout :: "MindNode \<Rightarrow> MindNode" where
  "resizeNodeForLabel_layout n =
     (let baseFont = Math_round (max 12 (min 20 (node_h n * 0.35)));
          L = layoutLabel_layout (node_label n) baseFont (node_w n)
      in n \<lparr> node_w := lay_width L, node_h := lay_height L \<rparr>)"




section \<open>Graph queries\<close>

text \<open>\<^verbatim>\<open>Array.prototype.find\<close> is \<^const>\<open>find\<close>; \<^verbatim>\<open>getParentId\<close> returns the source of the first
  edge whose target is the child, or \<^verbatim>\<open>null\<close>.\<close>

definition findNode :: "MindNode list \<Rightarrow> int \<Rightarrow> MindNode option" where
  "findNode ns i = find (\<lambda>n. node_id n = i) ns"

definition getParentId :: "Link list \<Rightarrow> int \<Rightarrow> int option" where
  "getParentId es childId =
     (case find (\<lambda>ed. target ed = childId) es of Some e \<Rightarrow> Some (source e) | None \<Rightarrow> None)"

definition getChildrenOf :: "Link list \<Rightarrow> int \<Rightarrow> int list" where
  "getChildrenOf es parentId = sort (map target (filter (\<lambda>e. source e = parentId) es))"

text \<open>The loop of \<^verbatim>\<open>buildRootPath\<close>:
  \<^verbatim>\<open>while (cur != null) { up.push(cur); cur = getParentId(cur); } return up.reverse();\<close>
  The loop itself has no bound, but every turn makes the array \<^verbatim>\<open>up\<close> one element longer,
  and \<^verbatim>\<open>push\<close> on an array that cannot grow any more throws
  \<^verbatim>\<open>RangeError: Invalid array length\<close>.  \<open>limit\<close> is the longest array the engine allows
  (\<open>2\<^sup>3\<^sup>2 - 1\<close> elements by the definition of the language, fewer in the engines in
  use).  The result is the exception or the returned path.\<close>

datatype Error = RangeError

function rootWalk :: "nat \<Rightarrow> Link list \<Rightarrow> int option \<Rightarrow> int list \<Rightarrow> Error + int list" where
  "rootWalk limit es cur up =
     (case cur of None \<Rightarrow> Inr (rev up)
      | Some c \<Rightarrow>
         if limit \<le> length up then Inl RangeError
         else rootWalk limit es (getParentId es c) (up @ [c]))"
  by pat_completeness auto
termination
  by (relation "measure (\<lambda>(limit, es, cur, up). limit - length up)") auto

declare rootWalk.simps [simp del]

definition buildRootPath :: "nat \<Rightarrow> Link list \<Rightarrow> int \<Rightarrow> Error + int list" where
  "buildRootPath limit es startId = rootWalk limit es (Some startId) []"

text \<open>The node reached from \<open>c\<close> after \<open>k\<close> parent steps, if the chain is that long.\<close>

fun climb :: "Link list \<Rightarrow> nat \<Rightarrow> int \<Rightarrow> int option" where
  "climb es 0 c = Some c"
| "climb es (Suc k) c = (case getParentId es c of None \<Rightarrow> None | Some p \<Rightarrow> climb es k p)"

definition mkLink :: "real \<Rightarrow> int \<Rightarrow> int \<Rightarrow> Link" where
  "mkLink i a b = \<lparr> link_id = i, source = a, target = b, link_label = None,
                    dashed = None, arrow = Some False \<rparr>"

text \<open>Three edges that close a cycle: 1 \<rightarrow> 2, 2 \<rightarrow> 3, 3 \<rightarrow> 1.  No two of them join the
  same pair of nodes, so the shift-click gesture can create them one after the other.\<close>

definition cycleEdges :: "Link list" where
  "cycleEdges = [mkLink 101 1 2, mkLink 102 2 3, mkLink 103 3 1]"

definition chainEdges :: "Link list" where
  "chainEdges = [mkLink 101 1 2, mkLink 102 2 3]"

section \<open>Geometry\<close>

type_synonym Point = "real \<times> real"

definition distPointToSeg :: "real \<Rightarrow> real \<Rightarrow> real \<Rightarrow> real \<Rightarrow> real \<Rightarrow> real \<Rightarrow> real" where
  "distPointToSeg px py x1 y1 x2 y2 =
     (let vx = x2 - x1; vy = y2 - y1;
          wx = px - x1; wy = py - y1;
          len2 = (if vx * vx + vy * vy = 0 then 1 / 1000000 else vx * vx + vy * vy);
          t = max 0 (min 1 ((wx * vx + wy * vy) / len2));
          cx = x1 + t * vx; cy = y1 + t * vy
      in Math_hypot (px - cx) (py - cy))"

definition rectRadius :: "MindNode \<Rightarrow> real" where
  "rectRadius n = max (node_w n) (node_h n) / 2"

definition NODE_PADDING :: real where "NODE_PADDING = 8"
definition EDGE_PADDING :: real where "EDGE_PADDING = 6"

text \<open>\<^verbatim>\<open>isPositionFree(x, y, parentId?)\<close> on the node and edge lists.  The edge loop skips the
  edges of \<^verbatim>\<open>parentId\<close> only when \<^verbatim>\<open>parentId\<close> is truthy, that is given and not 0.\<close>

definition nodeClear :: "real \<Rightarrow> real \<Rightarrow> int option \<Rightarrow> MindNode \<Rightarrow> bool" where
  "nodeClear x y parentId n =
     (if Some (node_id n) = parentId then True
      else \<not> Math_hypot (node_x n - x) (node_y n - y)
               < rectRadius n + max BASE_W BASE_H / 2 + NODE_PADDING)"

definition edgeClear :: "MindNode list \<Rightarrow> real \<Rightarrow> real \<Rightarrow> int option \<Rightarrow> Link \<Rightarrow> bool" where
  "edgeClear ns x y parentId e =
     (if parentId \<noteq> None \<and> parentId \<noteq> Some 0 \<and>
         (Some (source e) = parentId \<or> Some (target e) = parentId) then True
      else (case findNode ns (source e) of None \<Rightarrow> True
            | Some s \<Rightarrow>
               (case findNode ns (target e) of None \<Rightarrow> True
                | Some t \<Rightarrow>
                   \<not> distPointToSeg x y (node_x s) (node_y s) (node_x t) (node_y t)
                       < max BASE_W BASE_H / 2 + EDGE_PADDING)))"

definition isPositionFree :: "MindNode list \<Rightarrow> Link list \<Rightarrow> real \<Rightarrow> real \<Rightarrow> int option \<Rightarrow> bool" where
  "isPositionFree ns es x y parentId =
     (list_all (nodeClear x y parentId) ns \<and> list_all (edgeClear ns x y parentId) es)"

definition isPointInNode :: "MindNode \<Rightarrow> real \<Rightarrow> real \<Rightarrow> bool" where
  "isPointInNode n x y = (\<bar>x - node_x n\<bar> \<le> node_w n / 2 \<and> \<bar>y - node_y n\<bar> \<le> node_h n / 2)"

text \<open>\<^verbatim>\<open>findNodeAt(x, y, excludeId?)\<close>: the exclusion applies when \<^verbatim>\<open>excludeId\<close> is truthy.\<close>

definition findNodeAt :: "MindNode list \<Rightarrow> real \<Rightarrow> real \<Rightarrow> int option \<Rightarrow> int option" where
  "findNodeAt ns x y excludeId =
     map_option node_id
       (find (\<lambda>n. \<not> (excludeId \<noteq> None \<and> excludeId \<noteq> Some 0 \<and> Some (node_id n) = excludeId)
                  \<and> isPointInNode n x y) ns)"

section \<open>Application state\<close>

text \<open>A JavaScript \<^verbatim>\<open>Set\<close> keeps its members in insertion order; it is a list without
  repetitions.  \<^verbatim>\<open>new Set(array)\<close> keeps the first occurrence of each member.\<close>

fun mkSet :: "'a list \<Rightarrow> 'a list" where
  "mkSet [] = []"
| "mkSet (v # vs) = v # mkSet (removeAll v vs)"

definition setAdd :: "'a \<Rightarrow> 'a list \<Rightarrow> 'a list" where
  "setAdd v vs = (if v \<in> set vs then vs else vs @ [v])"

record Snapshot =
  nodes :: "MindNode list"
  edges :: "Link list"
  pan :: Point
  scale :: real
  selectedId :: "int option"
  selectedIds :: "int list"
  selectedEdgeIds :: "real list"

datatype Phase = idle | pending | active

record Linking =
  phase :: Phase
  sourceId :: "int option"
  link_x :: real
  link_y :: real
  startX :: real
  startY :: real

record Marquee =
  m_active :: bool
  m_x1 :: real
  m_y1 :: real
  m_x2 :: real
  m_y2 :: real

record Rect =
  r_left :: real
  r_top :: real
  r_width :: real
  r_height :: real

record Pinch =
  p_d :: real
  p_scale :: real
  p_panX :: real
  p_panY :: real
  p_cx :: real
  p_cy :: real

record PointerEvent =
  clientX :: real
  clientY :: real
  pointerId :: nat
  shiftKey :: bool
  ctrlKey :: bool
  metaKey :: bool

text \<open>A callback handed to \<^verbatim>\<open>setTimeout(..., 0)\<close>: a call of \<^verbatim>\<open>bringBoxIntoView\<close> that will
  read the \<^verbatim>\<open>pan\<close> and \<^verbatim>\<open>scale\<close> of the render that scheduled it.\<close>

record Deferred =
  d_cx :: real
  d_cy :: real
  d_w :: real
  d_h :: real
  d_pan :: Point
  d_scale :: real

text \<open>The state of the component: the \<^verbatim>\<open>useState\<close> cells that a snapshot captures, then the
  other cells and the \<^verbatim>\<open>useRef\<close> boxes.  The two history stacks have their top at the
  head of the list.  \<^verbatim>\<open>svg\<close> is the bounding rectangle of the mounted drawing surface,
  \<^verbatim>\<open>timers\<close> the queue of scheduled callbacks, \<^verbatim>\<open>alerts\<close> the messages shown with
  \<^verbatim>\<open>alert\<close>, and \<^verbatim>\<open>errors\<close> the exceptions that left a handler.

  The last five fields are the closure of the \<^verbatim>\<open>keydown\<close> handler.  The handler is installed
  by an effect whose dependencies are \<^verbatim>\<open>selectedId\<close>, \<^verbatim>\<open>selectedIds\<close>, \<^verbatim>\<open>selectedEdgeIds\<close>,
  \<^verbatim>\<open>editingId\<close> and \<^verbatim>\<open>clipboard\<close> (\<^verbatim>\<open>App.tsx\<close> line 944), so it is replaced only after a
  render in which one of the five has changed.  Until then the handler and the functions
  it calls read these five as they are and \<^verbatim>\<open>nodes\<close>, \<^verbatim>\<open>edges\<close>, \<^verbatim>\<open>pan\<close> and \<^verbatim>\<open>scale\<close> as they
  were in that render: \<open>keyNodes\<close>, \<open>keyEdges\<close>, \<open>keyPan\<close> and \<open>keyScale\<close>.  The selections
  are always set to a new \<^verbatim>\<open>Set\<close> object and the clipboard to a new object, which changes
  the dependency whatever the members are; \<open>depsChanged\<close> records that the running handler
  has made such a call or has changed \<^verbatim>\<open>editingId\<close>.\<close>

record State = Snapshot +
  undoStack :: "Snapshot list"
  redoStack :: "Snapshot list"
  clipboard :: "(MindNode list \<times> Link list) option"
  shiftTabPath :: "int list option"
  shiftTabIndex :: nat
  prevSelectedId :: "int option"
  draggingNodeId :: "int option"
  dragOffset :: Point
  somethingMoved :: bool
  groupDragging :: bool
  groupStart :: Point
  groupStartPositions :: "(int \<times> Point) list"
  panning :: bool
  panStart :: Point
  panAtStart :: Point
  activeTouches :: "(nat \<times> Point) list"
  pinchStart :: "Pinch option"
  marquee :: Marquee
  editingId :: "int option"
  editingText :: string
  linking :: Linking
  freshTyping :: bool
  svg :: "Rect option"
  timers :: "Deferred list"
  alerts :: "string list"
  errors :: "string list"
  keyNodes :: "MindNode list"
  keyEdges :: "Link list"
  keyPan :: Point
  keyScale :: real
  depsChanged :: bool

definition idleLinking :: Linking where
  "idleLinking = \<lparr> phase = idle, sourceId = None, link_x = 0, link_y = 0, startX = 0, startY = 0 \<rparr>"

definition noMarquee :: Marquee where
  "noMarquee = \<lparr> m_active = False, m_x1 = 0, m_y1 = 0, m_x2 = 0, m_y2 = 0 \<rparr>"

definition startNode :: MindNode where
  "startNode = \<lparr> node_id = 1, node_label = ''Start'', node_x = 0, node_y = 0,
                 node_w = BASE_W, node_h = BASE_H, strokeColor = ''#333'',
                 fillColor = None, bold = Some False \<rparr>"

text \<open>The state after the first render and its effects, on a drawing surface with
  bounding rectangle \<open>r\<close> and with nothing in the local storage: one node, selected, and
  the camera centred.  The surface fills the window (\<^verbatim>\<open>100vw\<close> by \<^verbatim>\<open>100vh\<close>), so the camera
  of the first render, which the first \<^verbatim>\<open>keydown\<close> handler sees, is the one the layout
  effect sets.\<close>

definition initialState :: "Rect \<Rightarrow> State" where
  "initialState r =
     \<lparr> nodes = [startNode], edges = [], pan = (r_width r / 2, r_height r / 2), scale = 1,
       selectedId = Some 1, selectedIds = [1], selectedEdgeIds = [],
       undoStack = [], redoStack = [], clipboard = None,
       shiftTabPath = None, shiftTabIndex = 0, prevSelectedId = None,
       draggingNodeId = None, dragOffset = (0, 0), somethingMoved = False,
       groupDragging = False, groupStart = (0, 0), groupStartPositions = [],
       panning = False, panStart = (0, 0), panAtStart = (0, 0),
       activeTouches = [], pinchStart = None, marquee = noMarquee,
       editingId = None, editingText = [], linking = idleLinking, freshTyping = True,
       svg = Some r, timers = [], alerts = [], errors = [],
       keyNodes = [startNode], keyEdges = [], keyPan = (r_width r / 2, r_height r / 2),
       keyScale = 1, depsChanged = False \<rparr>"

text \<open>The render the \<^verbatim>\<open>keydown\<close> handler belongs to; the state after the effect has
  installed a new handler; and the render with its effects that follows a handler.\<close>

definition seen :: "State \<Rightarrow> State" where
  "seen s = s \<lparr> nodes := keyNodes s, edges := keyEdges s, pan := keyPan s, scale := keyScale s \<rparr>"

definition installed :: "State \<Rightarrow> State" where
  "installed s = s \<lparr> keyNodes := nodes s, keyEdges := edges s, keyPan := pan s, keyScale := scale s,
                 depsChanged := False \<rparr>"

definition commit :: "State \<Rightarrow> State" where
  "commit s = (if depsChanged s then installed s else s)"

subsection \<open>Coordinates and camera\<close>

definition toWorld :: "State \<Rightarrow> real \<Rightarrow> real \<Rightarrow> Point" where
  "toWorld s cX cY =
     (case svg s of None \<Rightarrow> (0, 0)
      | Some rect \<Rightarrow> ((cX - r_left rect - fst (pan s)) / scale s,
                      (cY - r_top rect - snd (pan s)) / scale s))"

text \<open>\<^verbatim>\<open>bringBoxIntoView(cx, cy, w, h)\<close> with the default margin 24, as a function of the
  \<^verbatim>\<open>pan\<close> and \<^verbatim>\<open>scale\<close> it reads; the result is the new \<^verbatim>\<open>pan\<close> when it differs.\<close>

definition boxPan :: "Point \<Rightarrow> real \<Rightarrow> Rect option \<Rightarrow> real \<Rightarrow> real \<Rightarrow> real \<Rightarrow> real \<Rightarrow> Point option" where
  "boxPan pn sc sv cx cy w h =
     (case sv of None \<Rightarrow> None
      | Some rect \<Rightarrow>
         let margin = 24;
             leftx = fst pn + (cx - w / 2) * sc; lefty = snd pn + (cy - h / 2) * sc;
             rightx = fst pn + (cx + w / 2) * sc; righty = snd pn + (cy + h / 2) * sc;
             px1 = (if leftx < margin then fst pn + (margin - leftx) else fst pn);
             px2 = (if rightx > r_width rect - margin
                    then px1 - (rightx - (r_width rect - margin)) else px1);
             py1 = (if lefty < margin then snd pn + (margin - lefty) else snd pn);
             py2 = (if righty > r_height rect - margin
                    then py1 - (righty - (r_height rect - margin)) else py1)
         in if px2 \<noteq> fst pn \<or> py2 \<noteq> snd pn then Some (px2, py2) else None)"

definition bringBoxIntoView :: "State \<Rightarrow> real \<Rightarrow> real \<Rightarrow> real \<Rightarrow> real \<Rightarrow> State" where
  "bringBoxIntoView s cx cy w h =
     (case boxPan (pan s) (scale s) (svg s) cx cy w h of
        None \<Rightarrow> s | Some p \<Rightarrow> s \<lparr> pan := p \<rparr>)"

definition later :: "State \<Rightarrow> real \<Rightarrow> real \<Rightarrow> real \<Rightarrow> real \<Rightarrow> State" where
  "later s cx cy w h =
     s \<lparr> timers := timers s @ [\<lparr> d_cx = cx, d_cy = cy, d_w = w, d_h = h,
                                  d_pan = pan s, d_scale = scale s \<rparr>] \<rparr>"

text \<open>The event loop runs the oldest scheduled callback.\<close>

definition runTimer :: "State \<Rightarrow> State" where
  "runTimer s =
     (case timers s of [] \<Rightarrow> s
      | t # ts \<Rightarrow>
         (case boxPan (d_pan t) (d_scale t) (svg s) (d_cx t) (d_cy t) (d_w t) (d_h t) of
            None \<Rightarrow> s \<lparr> timers := ts \<rparr>
          | Some p \<Rightarrow> s \<lparr> timers := ts, pan := p \<rparr>))"

subsection \<open>Selection\<close>

definition selectOnly :: "int \<Rightarrow> State \<Rightarrow> State" where
  "selectOnly i s =
     s \<lparr> shiftTabPath := None, shiftTabIndex := 0,
         prevSelectedId := (if selectedId s \<noteq> None \<and> selectedId s \<noteq> Some i
                            then selectedId s else prevSelectedId s),
         selectedId := Some i, selectedIds := [i], selectedEdgeIds := [],
         freshTyping := True, depsChanged := True \<rparr>"

definition clearSelection :: "State \<Rightarrow> State" where
  "clearSelection s =
     s \<lparr> selectedId := None, selectedIds := [], selectedEdgeIds := [], freshTyping := True,
         depsChanged := True \<rparr>"

definition selectFromArray :: "int list \<Rightarrow> State \<Rightarrow> State" where
  "selectFromArray ids s =
     s \<lparr> selectedId := (case ids of [] \<Rightarrow> None | i # _ \<Rightarrow> Some i),
         selectedIds := mkSet ids, selectedEdgeIds := [], freshTyping := True,
         depsChanged := True \<rparr>"

subsection \<open>History\<close>

text \<open>\<^verbatim>\<open>cloneSnapshot\<close> is \<^verbatim>\<open>JSON.parse(JSON.stringify(s))\<close>: on the values of this model a
  copy equal to the original.  \<^verbatim>\<open>snapshot()\<close> reads the render its caller belongs to, and
  the argument of \<open>snapshot\<close> is that render: the current state for the pointer handlers
  and the menu items, \<^term>\<open>seen s\<close> for the \<^verbatim>\<open>keydown\<close> handler.  \<^verbatim>\<open>undo\<close> and \<^verbatim>\<open>redo\<close> are
  called by the \<^verbatim>\<open>keydown\<close> handler only (\<^verbatim>\<open>App.tsx\<close> lines 758 and 759).\<close>

definition snapshot :: "State \<Rightarrow> Snapshot" where
  "snapshot s =
     \<lparr> nodes = nodes s, edges = edges s, pan = pan s, scale = scale s,
       selectedId = selectedId s, selectedIds = selectedIds s,
       selectedEdgeIds = selectedEdgeIds s \<rparr>"

definition pushHistory :: "State \<Rightarrow> State" where
  "pushHistory s = s \<lparr> undoStack := snapshot s # undoStack s, redoStack := [] \<rparr>"

definition restore :: "Snapshot \<Rightarrow> State \<Rightarrow> State" where
  "restore t s =
     s \<lparr> nodes := nodes t, edges := edges t, pan := pan t, scale := scale t,
         selectedId := selectedId t, selectedIds := mkSet (selectedIds t),
         selectedEdgeIds := mkSet (selectedEdgeIds t), depsChanged := True \<rparr>"

definition undo :: "State \<Rightarrow> State" where
  "undo s =
     (case undoStack s of [] \<Rightarrow> s
      | t # rest \<Rightarrow>
         restore t (s \<lparr> undoStack := rest, redoStack := snapshot (seen s) # redoStack s \<rparr>))"

definition redo :: "State \<Rightarrow> State" where
  "redo s =
     (case redoStack s of [] \<Rightarrow> s
      | t # rest \<Rightarrow>
         restore t (s \<lparr> redoStack := rest, undoStack := snapshot (seen s) # undoStack s \<rparr>))"

section \<open>Adding nodes\<close>

text \<open>\<^verbatim>\<open>nodes.length ? Math.max(...nodes.map(n => n.id)) + 1 : 1\<close>\<close>

definition newNodeId :: "MindNode list \<Rightarrow> int" where
  "newNodeId ns = (case ns of [] \<Rightarrow> 1 | n # rest \<Rightarrow> foldl max (node_id n) (map node_id rest) + 1)"

definition blankNode :: "int \<Rightarrow> real \<Rightarrow> real \<Rightarrow> string \<Rightarrow> string option \<Rightarrow> MindNode" where
  "blankNode i x y stroke fill =
     \<lparr> node_id = i, node_label = [], node_x = x, node_y = y, node_w = BASE_W, node_h = BASE_H,
       strokeColor = stroke, fillColor = fill, bold = Some False \<rparr>"

text \<open>The loop of \<^verbatim>\<open>addChild\<close> (\<^verbatim>\<open>for (let i = 0; i < 96; i++)\<close>): the first argument is the
  number of turns left, \<open>i\<close> the loop counter, and the last pair the \<^verbatim>\<open>x, y\<close> assigned so
  far.  Every turn assigns \<^verbatim>\<open>x, y\<close> before it tests them.\<close>

fun childSpiral :: "(real \<Rightarrow> real \<Rightarrow> bool) \<Rightarrow> Point \<Rightarrow> nat \<Rightarrow> nat \<Rightarrow> real \<Rightarrow> real \<Rightarrow> Point \<Rightarrow> Point" where
  "childSpiral free c 0 i angle radius xy = xy"
| "childSpiral free c (Suc k) i angle radius xy =
     (let x = fst c + cos angle * radius; y = snd c + sin angle * radius in
      if free x y then (x, y)
      else childSpiral free c k (i + 1) (angle + GOLDEN_ANGLE)
             (if i mod 8 = 7 then radius + 24 else radius) (x, y))"

text \<open>\<^verbatim>\<open>addChild(parentId)\<close>, \<^verbatim>\<open>App.tsx\<close> lines 549--572.  \<open>now\<close> is the value of
  \<^verbatim>\<open>Date.now()\<close>.  The result is the new state and the returned id.\<close>

definition addChild :: "real \<Rightarrow> int \<Rightarrow> State \<Rightarrow> State \<times> int" where
  "addChild now parentId s =
     (case findNode (nodes s) parentId of
        None \<Rightarrow> (s, parentId)
      | Some parent \<Rightarrow>
         let s1 = pushHistory s;
             newId = newNodeId (nodes s);
             angle = real (length (getChildrenOf (edges s) parentId)) * GOLDEN_ANGLE;
             (x, y) = childSpiral (\<lambda>x y. isPositionFree (nodes s) (edges s) x y (Some parentId))
                        (node_x parent, node_y parent) 96 0 angle CHILD_RADIUS
                        (node_x parent, node_y parent);
             child = blankNode newId x y (strokeColor parent) (fillColor parent);
             s2 = s1 \<lparr> nodes := nodes s1 @ [child],
                       edges := edges s1 @ [mkLink now parentId newId] \<rparr>
         in (later s2 x y BASE_W BASE_H, newId))"

text \<open>The loop of \<^verbatim>\<open>addStandalone\<close> in \<^verbatim>\<open>App.tsx\<close> line 540:
  \<^verbatim>\<open>while(!isPositionFree(x,y)) { x+=20; y+=20; }\<close>.  It has no bound.\<close>

partial_function (option) diagWalk :: "(real \<Rightarrow> real \<Rightarrow> bool) \<Rightarrow> real \<Rightarrow> real \<Rightarrow> Point option" where
  "diagWalk free x y = (if free x y then Some (x, y) else diagWalk free (x + 20) (y + 20))"

text \<open>\<^verbatim>\<open>addStandalone(at?)\<close>, \<^verbatim>\<open>App.tsx\<close> lines 528--548.  With a point the node goes to that
  point whether it is free or not (the branch for an occupied point is empty: its body is
  the comment \<^verbatim>\<open>/* Placement logic omitted */\<close>).  Without a point and without a mounted
  surface the function returns 1 after \<^verbatim>\<open>pushHistory\<close>.  \<^const>\<open>None\<close> is the run in which the
  \<^verbatim>\<open>while\<close> loop never ends.\<close>

definition addStandalone :: "Point option \<Rightarrow> State \<Rightarrow> (State \<times> int) option" where
  "addStandalone pt s =
     (let s1 = pushHistory s;
          newId = newNodeId (nodes s);
          place = (\<lambda>x y.
             let node = blankNode newId x y ''#333'' None;
                 s2 = s1 \<lparr> nodes := nodes s1 @ [node] \<rparr>
             in (later s2 x y BASE_W BASE_H, newId))
      in case pt of
           Some (x, y) \<Rightarrow> Some (place x y)
         | None \<Rightarrow>
            (case svg s of
               None \<Rightarrow> Some (s1, 1)
             | Some rect \<Rightarrow>
                (case diagWalk (\<lambda>x y. isPositionFree (nodes s) (edges s) x y None)
                        ((r_width rect / 2 - fst (pan s)) / scale s)
                        ((r_height rect / 2 - snd (pan s)) / scale s) of
                   None \<Rightarrow> None
                 | Some (x, y) \<Rightarrow> Some (place x y))))"

text \<open>The search loops of \<^verbatim>\<open>addStandalone\<close> in the earlier copy of the component
  (\<^verbatim>\<open>types/index.ts\<close> lines 620--630 and 655--665): \<^verbatim>\<open>x, y\<close> change only when a tested
  point is free; \<open>step\<close> is the amount by which the radius grows after every sixth turn.\<close>

fun standaloneSpiral :: "(real \<Rightarrow> real \<Rightarrow> bool) \<Rightarrow> Point \<Rightarrow> real \<Rightarrow> nat \<Rightarrow> nat \<Rightarrow> real \<Rightarrow> real \<Rightarrow> Point" where
  "standaloneSpiral free c step 0 i angle radius = c"
| "standaloneSpiral free c step (Suc k) i angle radius =
     (let nx = fst c + cos angle * radius; ny = snd c + sin angle * radius in
      if free nx ny then (nx, ny)
      else standaloneSpiral free c step k (i + 1) (angle + GOLDEN_ANGLE)
             (if i mod 6 = 5 then radius + step else radius))"

text \<open>The points that loop tests, in the order of its turns.\<close>

fun spiralPoints :: "Point \<Rightarrow> real \<Rightarrow> nat \<Rightarrow> nat \<Rightarrow> real \<Rightarrow> real \<Rightarrow> Point list" where
  "spiralPoints c step 0 i angle radius = []"
| "spiralPoints c step (Suc k) i angle radius =
     (fst c + cos angle * radius, snd c + sin angle * radius)
       # spiralPoints c step k (i + 1) (angle + GOLDEN_ANGLE)
           (if i mod 6 = 5 then radius + step else radius)"

text \<open>\<^verbatim>\<open>addStandalone(at?)\<close> of the earlier copy, \<^verbatim>\<open>types/index.ts\<close> lines 606--682.\<close>

definition addStandalone_v14 :: "Point option \<Rightarrow> State \<Rightarrow> State \<times> int" where
  "addStandalone_v14 pt s =
     (let s1 = pushHistory s;
          newId = newNodeId (nodes s);
          free = (\<lambda>x y. isPositionFree (nodes s) (edges s) x y None);
          place = (\<lambda>p.
             let node = blankNode newId (fst p) (snd p) ''#333'' None;
                 s2 = s1 \<lparr> nodes := nodes s1 @ [node] \<rparr>
             in (later s2 (fst p) (snd p) BASE_W BASE_H, newId))
      in case pt of
           Some (x, y) \<Rightarrow>
             place (if \<not> free x y then standaloneSpiral free (x, y) 12 60 0 0 12 else (x, y))
         | None \<Rightarrow>
            (case svg s of
               None \<Rightarrow> (s1 \<lparr> nodes := nodes s1 @ [blankNode newId 0 0 ''#333'' None] \<rparr>, newId)
             | Some rect \<Rightarrow>
                place (standaloneSpiral free
                         ((r_width rect / 2 - fst (pan s)) / scale s,
                          (r_height rect / 2 - snd (pan s)) / scale s) 24 120 0 0 0)))"

text \<open>The placement as the specification words it, for comparison with the loops above:
  the candidates lie on a spiral around the first point, the \<open>j\<close>-th of them at \<open>j\<close> times
  the golden angle and at a radius that has grown \<open>j div 6\<close> times; the first free candidate
  is taken, and \<open>fallback\<close> when the bounded search finds none.\<close>

definition firstFree :: "(real \<Rightarrow> real \<Rightarrow> bool) \<Rightarrow> Point list \<Rightarrow> Point \<Rightarrow> Point" where
  "firstFree free pts fallback =
     (case find (\<lambda>p. free (fst p) (snd p)) pts of Some p \<Rightarrow> p | None \<Rightarrow> fallback)"

definition spiral_spec :: "Point \<Rightarrow> real \<Rightarrow> real \<Rightarrow> nat \<Rightarrow> Point list" where
  "spiral_spec c r0 step k =
     map (\<lambda>j. (fst c + cos (real j * GOLDEN_ANGLE) * (r0 + step * real (j div 6)),
               snd c + sin (real j * GOLDEN_ANGLE) * (r0 + step * real (j div 6))))
       [0 ..< k]"

definition placement_spec :: "Point option \<Rightarrow> State \<Rightarrow> Point" where
  "placement_spec pt s =
     (let free = (\<lambda>x y. isPositionFree (nodes s) (edges s) x y None) in
      case pt of
        Some q \<Rightarrow> if free (fst q) (snd q) then q else firstFree free (spiral_spec q 12 12 60) q
      | None \<Rightarrow>
         (case svg s of
            None \<Rightarrow> (0, 0)
          | Some rect \<Rightarrow>
             let c = ((r_width rect / 2 - fst (pan s)) / scale s,
                      (r_height rect / 2 - snd (pan s)) / scale s)
             in firstFree free (spiral_spec c 0 24 120) c))"

section \<open>Removing\<close>

definition removeEdges :: "real list \<Rightarrow> State \<Rightarrow> State" where
  "removeEdges ids s =
     (if ids = [] then s
      else (pushHistory s) \<lparr> edges := filter (\<lambda>e. link_id e \<notin> set ids) (edges s),
                              selectedEdgeIds := [], depsChanged := True \<rparr>)"

text \<open>\<^verbatim>\<open>removeNodes(ids)\<close>, \<^verbatim>\<open>App.tsx\<close> lines 586--593: the selection is always cleared.\<close>

definition removeNodes :: "int list \<Rightarrow> State \<Rightarrow> State" where
  "removeNodes ids s =
     (if ids = [] then s
      else clearSelection
             ((pushHistory s) \<lparr> nodes := filter (\<lambda>n. node_id n \<notin> set ids) (nodes s),
                                 edges := filter (\<lambda>e. source e \<notin> set ids \<and> target e \<notin> set ids)
                                            (edges s) \<rparr>))"

text \<open>\<^verbatim>\<open>removeNodes(ids)\<close> of the earlier copy, \<^verbatim>\<open>types/index.ts\<close> lines 735--763: when
  \<^verbatim>\<open>ids\<close> has one element whose parent is not deleted, the parent becomes the selection
  and a callback that brings it into view is scheduled.\<close>

definition removeNodes_v14 :: "int list \<Rightarrow> State \<Rightarrow> State" where
  "removeNodes_v14 ids s =
     (if ids = [] then s
      else
        let s1 = pushHistory s;
            nextSelection =
              (case ids of
                 [victim] \<Rightarrow>
                   (case getParentId (edges s) victim of
                      Some parent \<Rightarrow> if parent \<notin> set ids then Some parent else None
                    | None \<Rightarrow> None)
               | _ \<Rightarrow> None);
            s2 = s1 \<lparr> nodes := filter (\<lambda>n. node_id n \<notin> set ids) (nodes s),
                      edges := filter (\<lambda>e. source e \<notin> set ids \<and> target e \<notin> set ids) (edges s) \<rparr>
        in case nextSelection of
             Some parent \<Rightarrow>
               let s3 = s2 \<lparr> selectedId := Some parent, selectedIds := [parent],
                             selectedEdgeIds := [], depsChanged := True \<rparr>
               in (case findNode (nodes s) parent of
                     Some n \<Rightarrow> later s3 (node_x n) (node_y n) (node_w n) (node_h n)
                   | None \<Rightarrow> s3)
           | None \<Rightarrow> clearSelection s2)"

section \<open>Edges between two nodes\<close>

definition newLink :: "real \<Rightarrow> int \<Rightarrow> int \<Rightarrow> bool \<Rightarrow> Link" where
  "newLink i a b isArrow = \<lparr> link_id = i, source = a, target = b, link_label = None,
                             dashed = None, arrow = Some isArrow \<rparr>"

definition joins :: "int \<Rightarrow> int \<Rightarrow> Link \<Rightarrow> bool" where
  "joins a b ed = ((source ed = a \<and> target ed = b) \<or> (source ed = b \<and> target ed = a))"

definition ensureEdge :: "real \<Rightarrow> int \<Rightarrow> int \<Rightarrow> bool \<Rightarrow> State \<Rightarrow> State" where
  "ensureEdge now a b isArrow s =
     (if a = b then s
      else if list_ex (joins a b) (edges s) then s
      else s \<lparr> edges := edges s @ [newLink now a b isArrow] \<rparr>)"

section \<open>Pointer handlers\<close>

text \<open>
  A handler runs on the state of the render it belongs to and queues its updates.  Where
  a handler reads a cell after it has queued an update of that cell, the source still
  reads the value of the render; the model then reads the state the handler started
  with.  \<open>selectOnlyFrom\<close> and \<open>pushHistoryOf\<close> are \<^verbatim>\<open>selectOnly\<close> and \<^verbatim>\<open>pushHistory\<close> with
  that value made explicit.  A \<^verbatim>\<open>TypeError\<close> from a non-null assertion that fails ends
  the handler and is recorded in \<^verbatim>\<open>errors\<close>.
\<close>

definition selectOnlyFrom :: "int option \<Rightarrow> int \<Rightarrow> State \<Rightarrow> State" where
  "selectOnlyFrom sel i s =
     s \<lparr> shiftTabPath := None, shiftTabIndex := 0,
         prevSelectedId := (if sel \<noteq> None \<and> sel \<noteq> Some i then sel else prevSelectedId s),
         selectedId := Some i, selectedIds := [i], selectedEdgeIds := [],
         freshTyping := True, depsChanged := True \<rparr>"

definition pushHistoryOf :: "Snapshot \<Rightarrow> State \<Rightarrow> State" where
  "pushHistoryOf t s = s \<lparr> undoStack := t # undoStack s, redoStack := [] \<rparr>"

definition thrown :: "State \<Rightarrow> State" where
  "thrown s = s \<lparr> errors := errors s @ [''TypeError''] \<rparr>"

text \<open>The three parts of \<^verbatim>\<open>onPointerDownNode\<close> (\<^verbatim>\<open>App.tsx\<close> lines 596--660): the shift
  click, the ctrl click, and the plain press that starts a drag.\<close>

definition shiftClickNode :: "real \<Rightarrow> int \<Rightarrow> State \<Rightarrow> State" where
  "shiftClickNode now i s =
     (let startLink =
            (let s1 = selectOnly i s in
             case findNode (nodes s) i of
               None \<Rightarrow> thrown s1
             | Some src \<Rightarrow>
                 s1 \<lparr> linking := \<lparr> phase = pending, sourceId = Some i,
                                    link_x = node_x src, link_y = node_y src,
                                    startX = node_x src, startY = node_y src \<rparr> \<rparr>)
      in case selectedId s of
           None \<Rightarrow> startLink
         | Some sel \<Rightarrow>
             if sel = i then startLink
             else (case find (joins sel i) (edges s) of
                     Some existingEdge \<Rightarrow>
                       selectOnly i (removeEdges [link_id existingEdge] (pushHistory s))
                   | None \<Rightarrow>
                       selectOnly i (ensureEdge now sel i False (pushHistory s))))"

definition ctrlClickNode :: "int \<Rightarrow> State \<Rightarrow> State" where
  "ctrlClickNode i s =
     (let next = (if i \<in> set (selectedIds s) then removeAll i (selectedIds s)
                  else selectedIds s @ [i])
      in s \<lparr> selectedIds := next,
             selectedId := (case next of [] \<Rightarrow> None | j # _ \<Rightarrow> Some j),
             selectedEdgeIds := [], freshTyping := True, depsChanged := True \<rparr>)"

definition pressNode :: "PointerEvent \<Rightarrow> int \<Rightarrow> State \<Rightarrow> State" where
  "pressNode e i s =
     (let s1 = (if i \<in> set (selectedIds s) then s \<lparr> freshTyping := True \<rparr>
                else selectOnly i (s \<lparr> freshTyping := True \<rparr>));
          (px, py) = toWorld s (clientX e) (clientY e)
      in if length (selectedIds s) > 1 then
           (let s2 = s1 \<lparr> groupDragging := True, groupStart := (px, py) \<rparr> in
            if list_all (\<lambda>nid. findNode (nodes s) nid \<noteq> None) (selectedIds s)
            then s2 \<lparr> groupStartPositions :=
                        List.map_filter
                          (\<lambda>nid. map_option (\<lambda>n. (nid, (node_x n, node_y n))) (findNode (nodes s) nid))
                          (selectedIds s) \<rparr>
            else thrown s2)
         else
           (let s2 = s1 \<lparr> draggingNodeId := Some i \<rparr> in
            case findNode (nodes s) i of
              None \<Rightarrow> thrown s2
            | Some node \<Rightarrow>
                s2 \<lparr> dragOffset := (node_x node - px, node_y node - py),
                     somethingMoved := False \<rparr>))"

definition onPointerDownNode :: "real \<Rightarrow> PointerEvent \<Rightarrow> int \<Rightarrow> State \<Rightarrow> State" where
  "onPointerDownNode now e i s =
     (if editingId s \<noteq> None then s
      else if shiftKey e \<and> \<not> ctrlKey e \<and> \<not> metaKey e then shiftClickNode now i s
      else if phase (linking s) \<noteq> idle then s
      else if ctrlKey e \<or> metaKey e then ctrlClickNode i s
      else pressNode e i s)"

text \<open>\<^verbatim>\<open>Map.prototype.set\<close> and \<^verbatim>\<open>delete\<close> on the map of active pointers.\<close>

fun mapSet :: "'k \<Rightarrow> 'v \<Rightarrow> ('k \<times> 'v) list \<Rightarrow> ('k \<times> 'v) list" where
  "mapSet k v [] = [(k, v)]"
| "mapSet k v ((k', v') # rest) = (if k' = k then (k, v) # rest else (k', v') # mapSet k v rest)"

definition mapDelete :: "'k \<Rightarrow> ('k \<times> 'v) list \<Rightarrow> ('k \<times> 'v) list" where
  "mapDelete k m = filter (\<lambda>kv. fst kv \<noteq> k) m"

definition onPointerDownSvg :: "PointerEvent \<Rightarrow> State \<Rightarrow> State" where
  "onPointerDownSvg e s =
     (let touches = mapSet (pointerId e) (clientX e, clientY e) (activeTouches s);
          s1 = s \<lparr> activeTouches := touches \<rparr>;
          s2 = (case map snd touches of
                  [p0, p1] \<Rightarrow>
                    s1 \<lparr> pinchStart := Some
                           \<lparr> p_d = Math_hypot (fst p1 - fst p0) (snd p1 - snd p0),
                             p_scale = scale s, p_panX = fst (pan s), p_panY = snd (pan s),
                             p_cx = (fst p0 + fst p1) / 2, p_cy = (snd p0 + snd p1) / 2 \<rparr> \<rparr>
                | _ \<Rightarrow> s1)
      in s2 \<lparr> panning := (length touches < 2), panStart := (clientX e, clientY e),
              panAtStart := pan s \<rparr>)"

definition onPointerMoveSvg :: "PointerEvent \<Rightarrow> State \<Rightarrow> State" where
  "onPointerMoveSvg e s =
     (let s1 = (if pointerId e \<in> fst ` set (activeTouches s)
                then s \<lparr> activeTouches := mapSet (pointerId e) (clientX e, clientY e) (activeTouches s) \<rparr>
                else s);
          (x, y) = toWorld s (clientX e) (clientY e)
      in if m_active (marquee s) then s1 \<lparr> marquee := (marquee s) \<lparr> m_x2 := x, m_y2 := y \<rparr> \<rparr>
         else if phase (linking s) = pending \<or> phase (linking s) = active then
           (let moved = (Math_hypot (x - startX (linking s)) (y - startY (linking s))
                           > DRAG_THRESHOLD / scale s)
            in if phase (linking s) = pending \<and> moved
               then s1 \<lparr> linking := (linking s) \<lparr> phase := active, link_x := x, link_y := y \<rparr> \<rparr>
               else if phase (linking s) = active
               then s1 \<lparr> linking := (linking s) \<lparr> link_x := x, link_y := y \<rparr> \<rparr>
               else s1)
         else if groupDragging s then
           (let s2 = s1 \<lparr> somethingMoved := True \<rparr>;
                dx = x - fst (groupStart s); dy = y - snd (groupStart s);
                posMap = map_of (rev (groupStartPositions s))
            in if list_all (\<lambda>n. if node_id n \<in> set (selectedIds s)
                                    then posMap (node_id n) \<noteq> None else True) (nodes s)
               then s2 \<lparr> nodes := map (\<lambda>n.
                            case (if node_id n \<in> set (selectedIds s) then posMap (node_id n) else None) of
                              Some p \<Rightarrow> n \<lparr> node_x := fst p + dx, node_y := snd p + dy \<rparr>
                            | None \<Rightarrow> n) (nodes s) \<rparr>
               else thrown s2)
         else (case draggingNodeId s of
                 Some i \<Rightarrow>
                   s1 \<lparr> nodes := map (\<lambda>n. if node_id n = i
                                           then n \<lparr> node_x := x + fst (dragOffset s),
                                                    node_y := y + snd (dragOffset s) \<rparr>
                                           else n) (nodes s),
                        somethingMoved := True \<rparr>
               | None \<Rightarrow>
                   if panning s
                   then s1 \<lparr> pan := (fst (panAtStart s) + (clientX e - fst (panStart s)),
                                      snd (panAtStart s) + (clientY e - snd (panStart s))) \<rparr>
                   else s1))"

text \<open>\<^verbatim>\<open>onPointerUpSvg(e?)\<close>, \<^verbatim>\<open>App.tsx\<close> lines 715--744.  Its last part pushes the history
  entry of a drag: \<^verbatim>\<open>if (somethingMoved.current) pushHistory();\<close> runs when the nodes
  have already been moved, and \<^verbatim>\<open>snapshot()\<close> reads the state of the current render.\<close>

definition onPointerUpSvg :: "real \<Rightarrow> PointerEvent option \<Rightarrow> State \<Rightarrow> State" where
  "onPointerUpSvg now e s =
     (let s1 = (case e of Some ev \<Rightarrow> s \<lparr> activeTouches := mapDelete (pointerId ev) (activeTouches s) \<rparr>
                | None \<Rightarrow> s);
          s2 = (if m_active (marquee s) then
                  (let minX = min (m_x1 (marquee s)) (m_x2 (marquee s));
                       maxX = max (m_x1 (marquee s)) (m_x2 (marquee s));
                       minY = min (m_y1 (marquee s)) (m_y2 (marquee s));
                       maxY = max (m_y1 (marquee s)) (m_y2 (marquee s));
                       ids = map node_id
                               (filter (\<lambda>n. node_x n \<ge> minX \<and> node_x n \<le> maxX \<and>
                                            node_y n \<ge> minY \<and> node_y n \<le> maxY) (nodes s))
                   in (selectFromArray ids s1) \<lparr> marquee := noMarquee \<rparr>)
                else s1);
          s3 = (case sourceId (linking s) of
                  None \<Rightarrow> s2
                | Some src \<Rightarrow>
                    if phase (linking s) = pending \<or> phase (linking s) = active then
                      (let s4 =
                         (case findNodeAt (nodes s) (link_x (linking s)) (link_y (linking s))
                                 (Some src) of
                            None \<Rightarrow> s2
                          | Some targetId \<Rightarrow>
                              if targetId = 0 then s2
                              else
                                (let s5 = (if list_ex (joins src targetId) (edges s) then s2
                                           else (pushHistoryOf (snapshot s) s2)
                                                  \<lparr> edges := edges s2 @
                                                       [newLink now src targetId
                                                          (phase (linking s) = active)] \<rparr>)
                                 in selectOnlyFrom (selectedId s) targetId s5))
                       in s4 \<lparr> linking := idleLinking \<rparr>)
                    else s2);
          s6 = (if somethingMoved s then pushHistoryOf (snapshot s) s3 else s3)
      in s6 \<lparr> draggingNodeId := None, groupDragging := False, panning := False,
              somethingMoved := False \<rparr>)"

definition onPointerCancelSvg :: "PointerEvent \<Rightarrow> State \<Rightarrow> State" where
  "onPointerCancelSvg e s =
     s \<lparr> activeTouches := mapDelete (pointerId e) (activeTouches s),
         pinchStart := None, panning := False \<rparr>"

definition onPointerDownBg :: "PointerEvent \<Rightarrow> State \<Rightarrow> State" where
  "onPointerDownBg e s =
     (let s1 = (if editingId s \<noteq> None then s \<lparr> editingId := None, depsChanged := True \<rparr>
                else s) in
      if phase (linking s) \<noteq> idle then s1
      else if shiftKey e then
        (let (x, y) = toWorld s (clientX e) (clientY e) in
         s1 \<lparr> marquee := \<lparr> m_active = True, m_x1 = x, m_y1 = y, m_x2 = x, m_y2 = y \<rparr> \<rparr>)
      else (clearSelection s1) \<lparr> panning := True, panStart := (clientX e, clientY e),
                                 panAtStart := pan s, freshTyping := True \<rparr>)"

text \<open>\<^verbatim>\<open>onEdgePointerDown\<close> of the edge with id \<open>eid\<close> (\<^verbatim>\<open>App.tsx\<close> lines 1046--1049).\<close>

definition onEdgePointerDown :: "bool \<Rightarrow> real \<Rightarrow> State \<Rightarrow> State" where
  "onEdgePointerDown shift eid s =
     s \<lparr> selectedIds := [], selectedId := None,
         selectedEdgeIds := (if shift
                             then (if eid \<in> set (selectedEdgeIds s)
                                   then removeAll eid (selectedEdgeIds s)
                                   else selectedEdgeIds s @ [eid])
                             else [eid]),
         freshTyping := True, depsChanged := True \<rparr>"

section \<open>Keyboard\<close>

text \<open>The branches of the \<^verbatim>\<open>keydown\<close> handler (\<^verbatim>\<open>App.tsx\<close> lines 752--941) that the
  properties below are about.  The handler does nothing while a label is edited.  What
  it reads of \<^verbatim>\<open>nodes\<close>, \<^verbatim>\<open>edges\<close>, \<^verbatim>\<open>pan\<close> and \<^verbatim>\<open>scale\<close> are the values of its own render,
  \<open>keyNodes\<close> to \<open>keyScale\<close>; an updater function (\<^verbatim>\<open>setNodes(prev => ...)\<close>) gets the current
  value.\<close>

definition keyCopy :: "State \<Rightarrow> State" where
  "keyCopy s =
     (if editingId s \<noteq> None then s
      else if selectedIds s \<noteq> [] then
        s \<lparr> clipboard := Some
              (filter (\<lambda>n. node_id n \<in> set (selectedIds s)) (keyNodes s),
               filter (\<lambda>ed. source ed \<in> set (selectedIds s) \<and> target ed \<in> set (selectedIds s))
                 (keyEdges s)),
            depsChanged := True \<rparr>
      else s)"

text \<open>Paste.  \<open>fresh k\<close> is the value of \<^verbatim>\<open>Date.now() + Math.random()\<close> for the \<open>k\<close>-th pasted
  edge.  \<^verbatim>\<open>idMap.get(ed.source)!\<close> asserts that the id is in the map; later entries of the
  map replace earlier ones.\<close>

definition keyPaste :: "(nat \<Rightarrow> real) \<Rightarrow> State \<Rightarrow> State" where
  "keyPaste fresh s =
     (if editingId s \<noteq> None then s
      else case clipboard s of
        None \<Rightarrow> s
      | Some (cnodes, cedges) \<Rightarrow>
         let s1 = pushHistoryOf (snapshot (seen s)) s;
             maxId = (case keyNodes s of [] \<Rightarrow> 0
                      | n # rest \<Rightarrow> foldl max (node_id n) (map node_id rest));
             pasteOffset = 20;
             newNodes = map (\<lambda>(k, n). n \<lparr> node_id := maxId + int k + 1,
                                           node_x := node_x n + pasteOffset,
                                           node_y := node_y n + pasteOffset \<rparr>)
                          (enumerate 0 cnodes);
             idMap = map_of (rev (zip (map node_id cnodes) (map node_id newNodes)));
             newEdges = map (\<lambda>(k, ed). ed \<lparr> link_id := fresh k,
                                            source := the (idMap (source ed)),
                                            target := the (idMap (target ed)) \<rparr>)
                          (enumerate 0 cedges)
         in selectFromArray (map node_id newNodes)
              (s1 \<lparr> nodes := nodes s @ newNodes, edges := edges s @ newEdges \<rparr>))"

subsection \<open>Arrow keys\<close>

datatype ArrowKey = ArrowUp | ArrowDown | ArrowLeft | ArrowRight

record Cand =
  cand_id :: int
  cand_dist :: real
  cand_angle :: real

definition dirOf :: "ArrowKey \<Rightarrow> Point" where
  "dirOf k = (case k of ArrowUp \<Rightarrow> (0, -1) | ArrowDown \<Rightarrow> (0, 1)
              | ArrowLeft \<Rightarrow> (-1, 0) | ArrowRight \<Rightarrow> (1, 0))"

text \<open>The body of the loop that fills \<^verbatim>\<open>candidates\<close>: a node is skipped when it is the
  selected one, when it lies on the current node, or when its dot product with the
  direction is not positive.\<close>

definition candOf :: "int \<Rightarrow> MindNode \<Rightarrow> real \<Rightarrow> real \<Rightarrow> MindNode \<Rightarrow> Cand option" where
  "candOf sel cur ux uy n =
     (if node_id n = sel then None
      else let vx = node_x n - node_x cur; vy = node_y n - node_y cur;
               dist = Math_hypot vx vy
           in if dist = 0 then None
              else let dot = vx * ux + vy * uy
                   in if dot \<le> 0 then None
                      else Some \<lparr> cand_id = node_id n, cand_dist = dist,
                                  cand_angle = arccos (max (-1) (min 1 (dot / dist))) \<rparr>)"

definition candidates :: "MindNode list \<Rightarrow> int \<Rightarrow> MindNode \<Rightarrow> ArrowKey \<Rightarrow> Cand list" where
  "candidates ns sel cur k =
     (let dir = dirOf k;
          len = (if Math_hypot (fst dir) (snd dir) = 0 then 1 else Math_hypot (fst dir) (snd dir));
          ux = fst dir / len; uy = snd dir / len
      in List.map_filter (candOf sel cur ux uy) ns)"

text \<open>The test of \<^verbatim>\<open>pickWithin\<close> that lets a candidate replace the best one so far.\<close>

definition beats :: "Cand \<Rightarrow> Cand \<Rightarrow> bool" where
  "beats c best =
     (cand_dist c < cand_dist best - 1 / 1000 \<or>
      (\<bar>cand_dist c - cand_dist best\<bar> \<le> 1 / 1000 \<and> cand_angle c < cand_angle best))"

definition pickStep :: "real \<Rightarrow> Cand option \<Rightarrow> Cand \<Rightarrow> Cand option" where
  "pickStep maxAngleRad best c =
     (if cand_angle c > maxAngleRad then best
      else case best of None \<Rightarrow> Some c
           | Some b \<Rightarrow> if beats c b then Some c else Some b)"

definition pickWithin :: "Cand list \<Rightarrow> real \<Rightarrow> Cand option" where
  "pickWithin cands maxAngleRad = foldl (pickStep maxAngleRad) None cands"

definition DEG :: real where "DEG = pi / 180"

text \<open>\<^verbatim>\<open>candidates.reduce((acc, c) => (c.angle < acc.angle ? c : acc))\<close>\<close>

definition minAngle :: "Cand \<Rightarrow> Cand list \<Rightarrow> Cand" where
  "minAngle c cs = foldl (\<lambda>acc c. if cand_angle c < cand_angle acc then c else acc) c cs"

text \<open>The candidate the three tiers choose, \<^const>\<open>None\<close> when there is no candidate.\<close>

definition chooseCand :: "Cand list \<Rightarrow> Cand option" where
  "chooseCand cands =
     (case cands of [] \<Rightarrow> None
      | c # cs \<Rightarrow>
         (case pickWithin cands (30 * DEG) of
            Some b \<Rightarrow> Some b
          | None \<Rightarrow>
             (case pickWithin cands (60 * DEG) of
                Some b \<Rightarrow> Some b
              | None \<Rightarrow> Some (minAngle c cs))))"

definition keyArrow :: "ArrowKey \<Rightarrow> State \<Rightarrow> State" where
  "keyArrow k s =
     (if editingId s \<noteq> None then s
      else case selectedId s of
        None \<Rightarrow> s
      | Some sel \<Rightarrow>
         (case findNode (keyNodes s) sel of
            None \<Rightarrow> s
          | Some cur \<Rightarrow>
             (case chooseCand (candidates (keyNodes s) sel cur k) of
                None \<Rightarrow> s
              | Some best \<Rightarrow>
                 let s1 = selectOnly (cand_id best) s in
                 (case findNode (keyNodes s) (cand_id best) of
                    None \<Rightarrow> s1
                  | Some n \<Rightarrow>
                     (case boxPan (keyPan s) (keyScale s) (svg s)
                             (node_x n) (node_y n) (node_w n) (node_h n) of
                        None \<Rightarrow> s1
                      | Some p \<Rightarrow> s1 \<lparr> pan := p \<rparr>)))))"

text \<open>A node lies forward of \<open>cur\<close> in the direction of the key when the dot product of its
  displacement with the direction is positive.\<close>

definition forward :: "ArrowKey \<Rightarrow> MindNode \<Rightarrow> MindNode \<Rightarrow> bool" where
  "forward k cur n =
     ((node_x n - node_x cur) * fst (dirOf k) + (node_y n - node_y cur) * snd (dirOf k) > 0)"

section \<open>Import\<close>

text \<open>
  What \<^verbatim>\<open>JSON.parse(text)\<close> yields: a syntax error, a falsy value, or a value whose
  fields the function reads.  \<open>raw_nodes\<close> and \<open>raw_edges\<close> are \<^const>\<open>None\<close> when the field is
  not an array (\<^verbatim>\<open>Array.isArray\<close> fails), \<open>raw_pan\<close> when \<^verbatim>\<open>raw.pan\<close> is falsy,
  \<open>raw_scale\<close> when \<^verbatim>\<open>raw.scale\<close> is not a number; the three selection fields are
  \<^const>\<open>None\<close> when they are \<^verbatim>\<open>null\<close> or missing.  Fields that are present have the types
  the \<^verbatim>\<open>Snapshot\<close> declaration gives them, as the casts of the source assume; so a
  \<^verbatim>\<open>pan\<close> that is present has two numbers as coordinates.
\<close>

record RawDoc =
  raw_nodes :: "MindNode list option"
  raw_edges :: "Link list option"
  raw_pan :: "Point option"
  raw_scale :: "real option"
  raw_selectedId :: "int option"
  raw_selectedIds :: "int list option"
  raw_selectedEdgeIds :: "real list option"

datatype Parsed = SyntaxError | Falsy | Doc RawDoc

definition orElse :: "'a option \<Rightarrow> 'a \<Rightarrow> 'a" where
  "orElse v d = (case v of Some a \<Rightarrow> a | None \<Rightarrow> d)"

text \<open>\<^verbatim>\<open>importFromText\<close>, \<^verbatim>\<open>App.tsx\<close> lines 501--515.  A rejected input returns silently:
  there is no \<^verbatim>\<open>alert\<close> in this function, and the \<^verbatim>\<open>catch\<close> block is empty.  With
  \<^verbatim>\<open>raw.pan\<close> present the scale is taken as it is; a scale that is not a number leaves a
  value the model does not specify.\<close>

definition importFromText :: "Parsed \<Rightarrow> State \<Rightarrow> State" where
  "importFromText parsed s =
     (case parsed of
        SyntaxError \<Rightarrow> s
      | Falsy \<Rightarrow> s
      | Doc raw \<Rightarrow>
         (case raw_nodes raw of
            None \<Rightarrow> s
          | Some ns \<Rightarrow>
             (case raw_edges raw of
                None \<Rightarrow> s
              | Some es \<Rightarrow>
                 (case raw_pan raw of
                    Some p \<Rightarrow>
                      restore \<lparr> nodes = ns, edges = es, pan = p, scale = the (raw_scale raw),
                                selectedId = raw_selectedId raw,
                                selectedIds = orElse (raw_selectedIds raw) [],
                                selectedEdgeIds = orElse (raw_selectedEdgeIds raw) [] \<rparr> s
                  | None \<Rightarrow>
                      clearSelection (s \<lparr> nodes := ns, edges := es, pan := (0, 0), scale := 1 \<rparr>)))))"

text \<open>\<^verbatim>\<open>importFromText\<close> of the earlier copy, \<^verbatim>\<open>types/index.ts\<close> lines 554--590: it reports
  a rejected input with \<^verbatim>\<open>alert\<close>, and it restores a full snapshot only when \<^verbatim>\<open>pan\<close> and
  \<^verbatim>\<open>scale\<close> are numbers.  The umlaut of the German messages is written \<^verbatim>\<open>ue\<close> here.\<close>

definition importFromText_v14 :: "Parsed \<Rightarrow> State \<Rightarrow> State" where
  "importFromText_v14 parsed s =
     (let reject = s \<lparr> alerts := alerts s @ [''Datei scheint keine gueltige Mindmap zu sein.''] \<rparr> in
      case parsed of
        SyntaxError \<Rightarrow>
          s \<lparr> alerts := alerts s @ [''Konnte die Datei nicht lesen (kein gueltiges JSON).''] \<rparr>
      | Falsy \<Rightarrow> reject
      | Doc raw \<Rightarrow>
         (case raw_nodes raw of
            None \<Rightarrow> reject
          | Some ns \<Rightarrow>
             (case raw_edges raw of
                None \<Rightarrow> reject
              | Some es \<Rightarrow>
                 (case (raw_pan raw, raw_scale raw) of
                    (Some p, Some sc) \<Rightarrow>
                      restore \<lparr> nodes = ns, edges = es, pan = p, scale = sc,
                                selectedId = raw_selectedId raw,
                                selectedIds = orElse (raw_selectedIds raw) [],
                                selectedEdgeIds = orElse (raw_selectedEdgeIds raw) [] \<rparr> s
                  | _ \<Rightarrow>
                      clearSelection (s \<lparr> nodes := ns, edges := es, pan := (0, 0), scale := 1 \<rparr>)))))"

section \<open>Sequences of operations\<close>

text \<open>The two selections exclude each other when one of them is empty.\<close>

definition exclusive :: "'a Snapshot_scheme \<Rightarrow> bool" where
  "exclusive t = (selectedIds t = [] \<or> selectedEdgeIds t = [])"

definition docExclusive :: "RawDoc \<Rightarrow> bool" where
  "docExclusive raw =
     (orElse (raw_selectedIds raw) [] = [] \<or> orElse (raw_selectedEdgeIds raw) [] = [])"

text \<open>The operations of the component as values.  \<open>handle\<close> is the handler or function
  that an operation runs, and \<open>applyOp\<close> the whole step: the handler, then the render with
  its effects.\<close>

datatype Op =
    OpSelectOnly int
  | OpCtrlClick int
  | OpSelectFromArray "int list"
  | OpClearSelection
  | OpEdgePointerDown bool real
  | OpRemoveNodes "int list"
  | OpRemoveEdges "real list"
  | OpUndo
  | OpRedo
  | OpImport Parsed
  | OpCopy
  | OpPaste "nat \<Rightarrow> real"
  | OpPointerDownNode real PointerEvent int
  | OpPointerDownSvg PointerEvent
  | OpPointerMove PointerEvent
  | OpPointerUp real "PointerEvent option"
  | OpPointerCancel PointerEvent
  | OpPointerDownBg PointerEvent
  | OpAddChild real int
  | OpKeyArrow ArrowKey
  | OpRunTimer

fun handle :: "Op \<Rightarrow> State \<Rightarrow> State" where
  "handle (OpSelectOnly i) s = selectOnly i s"
| "handle (OpCtrlClick i) s = ctrlClickNode i s"
| "handle (OpSelectFromArray ids) s = selectFromArray ids s"
| "handle OpClearSelection s = clearSelection s"
| "handle (OpEdgePointerDown shift eid) s = onEdgePointerDown shift eid s"
| "handle (OpRemoveNodes ids) s = removeNodes ids s"
| "handle (OpRemoveEdges ids) s = removeEdges ids s"
| "handle OpUndo s = undo s"
| "handle OpRedo s = redo s"
| "handle (OpImport parsed) s = importFromText parsed s"
| "handle OpCopy s = keyCopy s"
| "handle (OpPaste fresh) s = keyPaste fresh s"
| "handle (OpPointerDownNode now e i) s = onPointerDownNode now e i s"
| "handle (OpPointerDownSvg e) s = onPointerDownSvg e s"
| "handle (OpPointerMove e) s = onPointerMoveSvg e s"
| "handle (OpPointerUp now e) s = onPointerUpSvg now e s"
| "handle (OpPointerCancel e) s = onPointerCancelSvg e s"
| "handle (OpPointerDownBg e) s = onPointerDownBg e s"
| "handle (OpAddChild now i) s = fst (addChild now i s)"
| "handle (OpKeyArrow k) s = keyArrow k s"
| "handle OpRunTimer s = runTimer s"

definition applyOp :: "Op \<Rightarrow> State \<Rightarrow> State" where
  "applyOp op s = commit (handle op s)"

text \<open>An imported document is admitted when it is not a full snapshot (it has no
  \<^verbatim>\<open>pan\<close>) or its own two selections exclude each other.\<close>

fun opOk :: "Op \<Rightarrow> bool" where
  "opOk (OpImport (Doc raw)) = (raw_pan raw = None \<or> docExclusive raw)"
| "opOk _ = True"

definition run :: "Op list \<Rightarrow> State \<Rightarrow> State" where
  "run ops s = foldl (\<lambda>s op. applyOp op s) s ops"

text \<open>The invariant: the current selection and every snapshot on the two stacks.\<close>

definition historyOk :: "State \<Rightarrow> bool" where
  "historyOk s = (exclusive s \<and> list_all exclusive (undoStack s) \<and> list_all exclusive (redoStack s))"

section \<open>Concrete states\<close>

definition surface :: Rect where
  "surface = \<lparr> r_left = 0, r_top = 0, r_width = 800, r_height = 600 \<rparr>"


definition wideNode :: MindNode where
  "wideNode = \<lparr> node_id = 1, node_label = ''a'', node_x = 0, node_y = 0,
                node_w = 300, node_h = 64, strokeColor = ''#333'', fillColor = None,
                bold = Some False \<rparr>"

text \<open>The document \<^verbatim>\<open>{nodes:[],edges:"x"}\<close>.\<close>

definition edgesNotArray :: RawDoc where
  "edgesNotArray = \<lparr> raw_nodes = Some [], raw_edges = None, raw_pan = None, raw_scale = None,
                      raw_selectedId = None, raw_selectedIds = None,
                      raw_selectedEdgeIds = None \<rparr>"

text \<open>The initial node with one child, the child selected: the state after \<^verbatim>\<open>Enter\<close> on the
  initial state.\<close>

definition parentAndChild :: State where
  "parentAndChild =
     installed ((initialState surface)
       \<lparr> nodes := [startNode, blankNode 2 160 0 ''#333'' None],
         edges := [mkLink 101 1 2],
         selectedId := Some 2, selectedIds := [2] \<rparr>)"

text \<open>Three nodes in a chain 1 \<rightarrow> 2 \<rightarrow> 3 with node 3 selected, as two presses of \<^verbatim>\<open>Enter\<close> leave
  them.\<close>

definition chainState :: State where
  "chainState =
     installed ((initialState surface)
       \<lparr> nodes := [startNode, blankNode 2 160 0 ''#333'' None, blankNode 3 320 0 ''#333'' None],
         edges := chainEdges,
         selectedId := Some 3, selectedIds := [3] \<rparr>)"

text \<open>Node 1 at the origin, node 2 far away on the axis to the right, node 3 near and
  slightly off the axis; node 1 has been selected when the three were there.\<close>

definition navState :: State where
  "navState =
     installed ((initialState surface)
       \<lparr> nodes := [startNode, blankNode 2 100 0 ''#333'' None, blankNode 3 12 5 ''#333'' None] \<rparr>)"

text \<open>A drag of node 1, which is selected: a press on it at the centre of the surface
  (the event reaches the handler of the node and then the handler of the surface), a
  move of \<open>d\<close> pixels to the right, and the release.\<close>

definition ev :: "real \<Rightarrow> real \<Rightarrow> PointerEvent" where
  "ev cx cy = \<lparr> clientX = cx, clientY = cy, pointerId = 1, shiftKey = False,
               ctrlKey = False, metaKey = False \<rparr>"

definition dragNode1 :: "real \<Rightarrow> Op list" where
  "dragNode1 d =
     [OpPointerDownNode 0 (ev 400 300) 1, OpPointerDownSvg (ev 400 300),
      OpPointerMove (ev (400 + d) 300), OpPointerUp 0 (Some (ev (400 + d) 300))]"

definition dragged :: State where
  "dragged = run (dragNode1 100) (initialState surface)"

text \<open>The places of the nodes of a snapshot.\<close>

definition places :: "'a Snapshot_scheme \<Rightarrow> (int \<times> real \<times> real) list" where
  "places t = map (\<lambda>n. (node_id n, node_x n, node_y n)) (nodes t)"

text \<open>A full snapshot document with a node selection and an edge selection, and one with
  a node selection only.\<close>

definition bothSelected :: RawDoc where
  "bothSelected = \<lparr> raw_nodes = Some [startNode], raw_edges = Some [], raw_pan = Some (0, 0),
                     raw_scale = Some 1, raw_selectedId = Some 1, raw_selectedIds = Some [1],
                     raw_selectedEdgeIds = Some [7] \<rparr>"

definition nodeSelected :: RawDoc where
  "nodeSelected = \<lparr> raw_nodes = Some [startNode], raw_edges = Some [], raw_pan = Some (0, 0),
                     raw_scale = Some 1, raw_selectedId = Some 1, raw_selectedIds = Some [1],
                     raw_selectedEdgeIds = Some [] \<rparr>"

definition sampleOps :: "Op list" where
  "sampleOps = [OpCtrlClick 2, OpEdgePointerDown False 7, OpImport (Doc nodeSelected), OpUndo,
                OpRemoveNodes [1], OpUndo, OpRedo]"


section \<open>Adding a child to a node that does not exist\<close>

text \<open>
  Claim C10.  \<^verbatim>\<open>addChild(parentId)\<close> called with an id for which no node exists returns
  \<^verbatim>\<open>parentId\<close> and leaves the whole state as it was: nodes, edges, selection and camera
  are unchanged, nothing is pushed on the undo stack, the redo stack is kept and no
  callback is scheduled.  The test for the parent precedes \<^verbatim>\<open>pushHistory\<close>.
\<close>

theorem addChild_unknown_parent:
  "findNode (nodes s) parentId = None \<Longrightarrow> addChild now parentId s = (s, parentId)"
  by (simp add: addChild_def)

theorem addChild_unknown_parent_witness:
  "findNode (nodes (initialState surface)) 2 = None \<and>
   addChild 0 2 (initialState surface) = (initialState surface, 2)"
proof -
  have h: "findNode (nodes (initialState surface)) 2 = None"
    by (simp add: findNode_def initialState_def startNode_def)
  show ?thesis using h addChild_unknown_parent [OF h, of 0] by simp
qed

section \<open>Label layout: sizes and line count\<close>

lemma rebuild_width_mono: "rebuild l f w = (ok, ls, w') \<Longrightarrow> w \<le> w'"
  by (auto simp: rebuild_def Let_def split: if_splits)

lemma rebuildLoop_width_mono: "rebuildLoop k l f (ls, w) = (ls', w') \<Longrightarrow> w \<le> w'"
proof (induction k arbitrary: ls w)
  case 0
  then show ?case by simp
next
  case (Suc k)
  obtain ok ls1 w1 where r: "rebuild l f w = (ok, ls1, w1)"
    by (cases "rebuild l f w") auto
  have le: "w \<le> w1" using rebuild_width_mono[OF r] .
  show ?case
  proof (cases ok)
    case True
    with Suc.prems r le show ?thesis by simp
  next
    case False
    with Suc.prems r have "rebuildLoop k l f (ls1, w1) = (ls', w')" by simp
    from Suc.IH[OF this] le show ?thesis by simp
  qed
qed

lemma layout_width_ge: "max minW BASE_W \<le> lay_width (layoutLabel_layout l f minW)"
proof -
  obtain ls w where r: "rebuildLoop 6 l f ([], max minW BASE_W) = (ls, w)"
    by (cases "rebuildLoop 6 l f ([], max minW BASE_W)") auto
  from rebuildLoop_width_mono[OF r] show ?thesis
    by (auto simp: layoutLabel_layout_def Let_def r le_max_iff_disj)
qed

lemma layout_height_ge: "BASE_H \<le> lay_height (layoutLabel_layout l f minW)"
  by (simp add: layoutLabel_layout_def Let_def split: prod.splits)

text \<open>The two size bounds of the claim hold for every node.\<close>

lemma resizeNodeForLabel_min_size:
  "BASE_W \<le> node_w (resizeNodeForLabel n) \<and> BASE_H \<le> node_h (resizeNodeForLabel n)"
  using layout_width_ge[of BASE_W "node_label n"] layout_height_ge
  by (simp add: resizeNodeForLabel_def layoutLabel_def Let_def)























section \<open>Label layout: the minimum width of a resize\<close>

text \<open>The resize of \<^verbatim>\<open>utils/layout.ts\<close> never makes a node narrower, and its font size is
  the one the claim names.\<close>

lemma resizeNodeForLabel_layout_keeps_width:
  "node_w n \<le> node_w (resizeNodeForLabel_layout n)"
  using layout_width_ge[of "node_w n" "node_label n"]
  by (simp add: resizeNodeForLabel_layout_def Let_def)

lemma round_clamp_commute: "Math_round (max 12 (min 20 v)) = clamp (Math_round v) 12 20"
  unfolding Math_round_def clamp_def
  by (auto simp: max_def min_def) linarith+

text \<open>
  Claim C8, as stated: \<^verbatim>\<open>resizeNodeForLabel(node)\<close> lays the label out with the node's
  current width as minimum width, so the width after the call is never smaller than
  before.  The function of the component (\<^verbatim>\<open>App.tsx\<close> lines 433--437, and the same in the
  earlier copy) passes the constant \<^verbatim>\<open>BASE_W\<close>: a node of width 300 with the label \<^verbatim>\<open>a\<close>
  comes back with width 120.  Only the function of \<^verbatim>\<open>utils/layout.ts\<close> keeps the 300.
\<close>

theorem resizeNodeForLabel_shrinks:
  "node_w wideNode = 300 \<and>
   node_w (resizeNodeForLabel wideNode) = 120 \<and>
   node_w (resizeNodeForLabel_layout wideNode) = 300"
  by code_simp

text \<open>
  Claim C8, amended.  \<^verbatim>\<open>resizeNodeForLabel(node)\<close> takes the font size
  \<open>clamp(round(h * 0.35), 12, 20)\<close> from the node's current height and lays the label out
  with the base width 120 as minimum width: the new width is the width of that layout
  and at least 120, whatever the width was before.  The variant in \<^verbatim>\<open>utils/layout.ts\<close>
  takes the same font size and the node's current width as minimum, and only there the
  width never shrinks.
\<close>

theorem resizeNodeForLabel_width:
  "BASE_W \<le> node_w (resizeNodeForLabel n) \<and>
   node_w (resizeNodeForLabel n)
     = lay_width (layoutLabel (node_label n) (clamp (Math_round (node_h n * 0.35)) 12 20) BASE_W) \<and>
   node_w n \<le> node_w (resizeNodeForLabel_layout n) \<and>
   node_w (resizeNodeForLabel_layout n)
     = lay_width (layoutLabel_layout (node_label n) (clamp (Math_round (node_h n * 0.35)) 12 20) (node_w n))"
  using resizeNodeForLabel_min_size[of n] resizeNodeForLabel_layout_keeps_width[of n]
  by (simp add: resizeNodeForLabel_def resizeNodeForLabel_layout_def Let_def round_clamp_commute)

section \<open>The path to the root\<close>

text \<open>When the chain of parents reaches a node without parent before the array is full,
  the loop returns the chain in reverse.\<close>

lemma rootWalk_climb:
  "climb es k c = Some r \<Longrightarrow> getParentId es r = None \<Longrightarrow> k + length up < limit \<Longrightarrow>
     \<exists>mid. rootWalk limit es (Some c) up = Inr (r # mid @ rev up) \<and> length mid = k \<and>
           (mid = [] \<longrightarrow> r = c) \<and> (mid \<noteq> [] \<longrightarrow> last mid = c)"
proof (induction k arbitrary: c up)
  case 0
  then show ?case by (subst rootWalk.simps) (simp add: rootWalk.simps)
next
  case (Suc k)
  then obtain p where p: "getParentId es c = Some p" "climb es k p = Some r"
    by (auto split: option.splits)
  have "k + length (up @ [c]) < limit" using Suc.prems(3) by simp
  from Suc.IH[OF p(2) Suc.prems(2) this]
  obtain mid where m: "rootWalk limit es (Some p) (up @ [c]) = Inr (r # mid @ rev (up @ [c]))"
    "length mid = k"
    by blast
  have "rootWalk limit es (Some c) up = Inr (r # (mid @ [c]) @ rev up)"
    using p(1) m(1) Suc.prems(3) by (subst rootWalk.simps) simp
  then show ?case using m(2) by (intro exI[of _ "mid @ [c]"]) simp
qed

text \<open>When the chain is longer than the array can become, \<^verbatim>\<open>push\<close> throws.\<close>

lemma rootWalk_overflow:
  "length up + d = limit \<Longrightarrow> climb es d c \<noteq> None \<Longrightarrow>
     rootWalk limit es (Some c) up = Inl RangeError"
proof (induction d arbitrary: c up)
  case 0
  then show ?case by (subst rootWalk.simps) simp
next
  case (Suc d)
  from Suc.prems(2) obtain p where p: "getParentId es c = Some p" "climb es d p \<noteq> None"
    by (cases "getParentId es c") auto
  have lt: "length up < limit" using Suc.prems(1) by simp
  have "length (up @ [c]) + d = limit" using Suc.prems(1) by simp
  from Suc.IH[OF this p(2)]
  have "rootWalk limit es (Some p) (up @ [c]) = Inl RangeError" .
  then show ?case using p(1) lt by (subst rootWalk.simps) simp
qed

lemma cycle_parent: "c \<in> {1, 2, 3} \<Longrightarrow> \<exists>p \<in> {1, 2, 3}. getParentId cycleEdges c = Some p"
  by (auto simp: getParentId_def cycleEdges_def mkLink_def)

lemma climb_cycle: "c \<in> {1, 2, 3} \<Longrightarrow> climb cycleEdges k c \<noteq> None"
proof (induction k arbitrary: c)
  case 0
  then show ?case by simp
next
  case (Suc k)
  from cycle_parent[OF Suc.prems] obtain p where
    p: "p \<in> {1, 2, 3}" "getParentId cycleEdges c = Some p" by blast
  with Suc.IH[OF p(1)] show ?case by simp
qed

text \<open>The cycle can be made with the editor: with node 3 of the chain 1 \<rightarrow> 2 \<rightarrow> 3 selected,
  a shift click on node 1 finds no edge between 3 and 1 and adds the edge 3 \<rightarrow> 1.\<close>

lemma shiftClick_closes_cycle:
  "edges (shiftClickNode 103 1 chainState) = cycleEdges"
  by (simp add: shiftClickNode_def chainState_def initialState_def chainEdges_def cycleEdges_def
        joins_def mkLink_def newLink_def ensureEdge_def pushHistory_def selectOnly_def
        installed_def)

text \<open>
  Claim C9, as stated: for every graph state, cycles included, \<^verbatim>\<open>buildRootPath(nodeId)\<close>
  terminates and returns a path from a node without parent to \<open>nodeId\<close>.  On the cycle
  1 \<rightarrow> 2 \<rightarrow> 3 \<rightarrow> 1 the loop never reaches a node without parent: whatever the longest
  array is, the call from node 1 fills it and ends with a \<^verbatim>\<open>RangeError\<close>, and no path is
  returned.
\<close>

theorem buildRootPath_cycle_throws:
  "\<forall>limit. buildRootPath limit cycleEdges 1 = Inl RangeError"
  using rootWalk_overflow[of "[]" _ _ cycleEdges 1] climb_cycle[of 1]
  by (simp add: buildRootPath_def)

text \<open>
  Claim C9, amended.  When the chain of parents that starts at \<open>nodeId\<close> reaches, after
  \<open>k\<close> steps, a node \<open>r\<close> without parent, and the \<open>k + 1\<close> nodes fit into an array,
  \<^verbatim>\<open>buildRootPath(nodeId)\<close> terminates and returns a path of \<open>k + 1\<close> nodes that starts at \<open>r\<close>,
  a node without parent, and ends at \<open>nodeId\<close>.  When the chain has more steps than an
  array can hold elements, as every chain that runs into a cycle has, the call
  terminates with \<^verbatim>\<open>RangeError: Invalid array length\<close> and returns nothing.
\<close>

theorem buildRootPath_result:
  "(climb es k nodeId = Some r \<and> getParentId es r = None \<and> k < limit \<longrightarrow>
      (\<exists>path. buildRootPath limit es nodeId = Inr path \<and> length path = k + 1 \<and>
              hd path = r \<and> getParentId es (hd path) = None \<and> last path = nodeId)) \<and>
   (climb es limit nodeId \<noteq> None \<longrightarrow> buildRootPath limit es nodeId = Inl RangeError)"
proof (intro conjI impI)
  assume a: "climb es k nodeId = Some r \<and> getParentId es r = None \<and> k < limit"
  then have "k + length ([] :: int list) < limit" by simp
  from rootWalk_climb[OF _ _ this, of es nodeId r] a obtain mid where
    m: "rootWalk limit es (Some nodeId) [] = Inr (r # mid)" "length mid = k"
       "mid = [] \<longrightarrow> r = nodeId" "mid \<noteq> [] \<longrightarrow> last mid = nodeId"
    by auto
  show "\<exists>path. buildRootPath limit es nodeId = Inr path \<and> length path = k + 1 \<and>
              hd path = r \<and> getParentId es (hd path) = None \<and> last path = nodeId"
    using m a by (intro exI[of _ "r # mid"]) (auto simp: buildRootPath_def)
next
  assume "climb es limit nodeId \<noteq> None"
  then show "buildRootPath limit es nodeId = Inl RangeError"
    using rootWalk_overflow[of "[]" limit limit es nodeId] by (simp add: buildRootPath_def)
qed

theorem buildRootPath_result_witness:
  "climb chainEdges 2 3 = Some 1 \<and> getParentId chainEdges 1 = None \<and> (2::nat) < 4294967295 \<and>
   (\<exists>path. buildRootPath 4294967295 chainEdges 3 = Inr path \<and> length path = 2 + 1 \<and>
           hd path = 1 \<and> getParentId chainEdges (hd path) = None \<and> last path = 3) \<and>
   climb cycleEdges 7 1 \<noteq> None \<and> buildRootPath 7 cycleEdges 1 = Inl RangeError"
proof -
  have h1: "climb chainEdges 2 3 = Some 1" by code_simp
  have h2: "getParentId chainEdges 1 = None" by code_simp
  have h3: "climb cycleEdges 7 1 \<noteq> None" by (rule climb_cycle) simp
  show ?thesis
    using h1 h2 h3 buildRootPath_result [of chainEdges 2 3 1 4294967295]
      buildRootPath_result [of cycleEdges 0 1 1 7]
    by simp
qed

section \<open>Rejected imports\<close>

text \<open>A document whose \<^verbatim>\<open>nodes\<close> or \<^verbatim>\<open>edges\<close> is not an array leaves the state as it was,
  in both copies of the function; the earlier copy adds its message to the alerts.\<close>

lemma importFromText_rejects:
  "raw_nodes raw = None \<or> raw_edges raw = None \<Longrightarrow> importFromText (Doc raw) s = s"
  by (auto simp: importFromText_def split: option.splits)

lemma importFromText_v14_rejects:
  "raw_nodes raw = None \<or> raw_edges raw = None \<Longrightarrow>
   importFromText_v14 (Doc raw) s =
     s \<lparr> alerts := alerts s @ [''Datei scheint keine gueltige Mindmap zu sein.''] \<rparr>"
  by (auto simp: importFromText_v14_def Let_def split: option.splits)

text \<open>
  Claim C7.  An import whose \<^verbatim>\<open>nodes\<close> or \<^verbatim>\<open>edges\<close> is not an array is rejected without
  a change of state, and an error is shown to the user.  For \<^verbatim>\<open>{nodes:[],edges:"x"}\<close> the
  function of \<^verbatim>\<open>App.tsx\<close> returns the state it was given, whole: nothing changes, and no
  message is shown either.  The earlier copy of the function shows its message.
\<close>

theorem importFromText_silent:
  "importFromText (Doc edgesNotArray) s = s \<and>
   alerts (importFromText (Doc edgesNotArray) (initialState surface)) = [] \<and>
   alerts (importFromText_v14 (Doc edgesNotArray) (initialState surface))
     = [''Datei scheint keine gueltige Mindmap zu sein.'']"
  by (simp add: importFromText_def importFromText_v14_def edgesNotArray_def initialState_def)

section \<open>Removing nodes\<close>

text \<open>Both copies of \<^verbatim>\<open>removeNodes\<close> remove the nodes and every edge that touches one of
  them.\<close>

lemma removeNodes_cascade:
  "list_all (\<lambda>n. node_id n \<notin> set ids) (nodes (removeNodes ids s)) \<and>
   list_all (\<lambda>e. source e \<notin> set ids \<and> target e \<notin> set ids) (edges (removeNodes ids s))"
  by (auto simp: removeNodes_def clearSelection_def pushHistory_def list_all_iff)

lemma removeNodes_v14_cascade:
  "list_all (\<lambda>n. node_id n \<notin> set ids) (nodes (removeNodes_v14 ids s)) \<and>
   list_all (\<lambda>e. source e \<notin> set ids \<and> target e \<notin> set ids) (edges (removeNodes_v14 ids s))"
  by (auto simp: removeNodes_v14_def clearSelection_def pushHistory_def later_def Let_def
        list_all_iff split: option.splits list.splits)

text \<open>The earlier copy selects the parent of a single removed node.\<close>

lemma removeNodes_v14_selects_parent:
  "getParentId (edges s) victim = Some parent \<Longrightarrow> parent \<noteq> victim \<Longrightarrow>
   selectedId (removeNodes_v14 [victim] s) = Some parent \<and>
   selectedIds (removeNodes_v14 [victim] s) = [parent] \<and>
   selectedEdgeIds (removeNodes_v14 [victim] s) = []"
  by (simp add: removeNodes_v14_def pushHistory_def later_def Let_def split: option.splits)

lemma removeNodes_v14_clears:
  "ids \<noteq> [] \<Longrightarrow>
   length ids \<noteq> 1 \<or> getParentId (edges s) (hd ids) = None
     \<or> getParentId (edges s) (hd ids) = Some (hd ids) \<Longrightarrow>
   selectedId (removeNodes_v14 ids s) = None \<and>
   selectedIds (removeNodes_v14 ids s) = [] \<and>
   selectedEdgeIds (removeNodes_v14 ids s) = []"
  by (auto simp: removeNodes_v14_def pushHistory_def clearSelection_def Let_def
        split: option.splits list.splits)

text \<open>
  Claim C2.  \<^verbatim>\<open>removeNodes(ids)\<close> removes the nodes and their edges, and when exactly one
  node is removed whose parent stays, the parent becomes the selection.  In the state
  with node 1, its child 2 and the edge 1 \<rightarrow> 2, removing node 2 with the function of
  \<^verbatim>\<open>App.tsx\<close> leaves nothing selected, although node 1 is the parent of node 2 and stays;
  the earlier copy of the function selects node 1.
\<close>

theorem removeNodes_drops_selection:
  "getParentId (edges parentAndChild) 2 = Some 1 \<and>
   map node_id (nodes (removeNodes [2] parentAndChild)) = [1] \<and>
   edges (removeNodes [2] parentAndChild) = [] \<and>
   selectedId (removeNodes [2] parentAndChild) = None \<and>
   selectedIds (removeNodes [2] parentAndChild) = [] \<and>
   selectedId (removeNodes_v14 [2] parentAndChild) = Some 1 \<and>
   selectedIds (removeNodes_v14 [2] parentAndChild) = [1]"
  by (simp add: parentAndChild_def initialState_def removeNodes_def removeNodes_v14_def
        getParentId_def mkLink_def clearSelection_def pushHistory_def later_def findNode_def
        startNode_def blankNode_def installed_def Let_def)

section \<open>Undo after a drag\<close>

text \<open>The render that follows a handler changes nothing but the closure of the \<^verbatim>\<open>keydown\<close>
  handler.\<close>

lemma commit_fields:
  "nodes (commit s) = nodes s" "edges (commit s) = edges s" "pan (commit s) = pan s"
  "scale (commit s) = scale s" "selectedId (commit s) = selectedId s"
  "selectedIds (commit s) = selectedIds s" "selectedEdgeIds (commit s) = selectedEdgeIds s"
  "undoStack (commit s) = undoStack s" "redoStack (commit s) = redoStack s"
  by (simp_all add: commit_def installed_def)

text \<open>The drag of node 1 by 100 pixels: the node is selected already, so the press does
  not select it again and the \<^verbatim>\<open>keydown\<close> handler stays the one of the first render.\<close>

lemma dragged_state:
  "places dragged = [(1, 100, 0)] \<and>
   map places (undoStack dragged) = [[(1, 100, 0)]] \<and>
   redoStack dragged = [] \<and>
   keyNodes dragged = [startNode] \<and>
   selectedIds dragged = [1] \<and> editingId dragged = None"
  by (simp add: dragged_def dragNode1_def run_def applyOp_def commit_def installed_def places_def
        onPointerUpSvg_def onPointerMoveSvg_def onPointerDownSvg_def
        onPointerDownNode_def pressNode_def toWorld_def initialState_def surface_def ev_def
        startNode_def findNode_def mapDelete_def snapshot_def
        pushHistoryOf_def idleLinking_def noMarquee_def Let_def)

text \<open>The shift click on a node that is joined to the selected one calls \<^verbatim>\<open>pushHistory\<close>
  and then \<^verbatim>\<open>removeEdges\<close>, which calls it again: one gesture, two equal snapshots.\<close>

lemma shiftClick_pushes_twice:
  "undoStack (shiftClickNode now 1 parentAndChild) = [snapshot parentAndChild, snapshot parentAndChild]"
  by (simp add: shiftClickNode_def parentAndChild_def initialState_def joins_def mkLink_def
        removeEdges_def pushHistory_def selectOnly_def snapshot_def installed_def)

text \<open>
  Claim C1.  Every mutating operation pushes a snapshot of the state before its change,
  so \<open>N\<close> calls of \<^verbatim>\<open>undo\<close> after \<open>N\<close> operations give back the state before them, and \<open>N\<close>
  calls of \<^verbatim>\<open>redo\<close> the state after them.  A drag of a node is one operation and pushes
  one snapshot, but \<^verbatim>\<open>onPointerUpSvg\<close> pushes it at the end of the gesture, when the node
  has been moved.  From the initial state with an empty undo stack, dragging node 1 from
  (0, 0) to (100, 0) leaves one snapshot on the stack, and it holds the node at (100, 0);
  after one \<^verbatim>\<open>undo\<close> node 1 is still at (100, 0).  The snapshot that this \<^verbatim>\<open>undo\<close> pushes
  for \<^verbatim>\<open>redo\<close> is taken by the \<^verbatim>\<open>keydown\<close> handler of the first render and holds the node
  at (0, 0), so that \<^verbatim>\<open>redo\<close> moves the node to where it was before the drag.
\<close>

theorem undo_after_drag_keeps_position:
  "undoStack (initialState surface) = [] \<and>
   places (initialState surface) = [(1, 0, 0)] \<and>
   places dragged = [(1, 100, 0)] \<and>
   map places (undoStack dragged) = [[(1, 100, 0)]] \<and>
   places (applyOp OpUndo dragged) = [(1, 100, 0)] \<and>
   map places (redoStack (applyOp OpUndo dragged)) = [[(1, 0, 0)]] \<and>
   places (applyOp OpRedo (applyOp OpUndo dragged)) = [(1, 0, 0)]"
proof -
  obtain t where t: "undoStack dragged = [t]" "places t = [(1, 100, 0)]"
    using dragged_state by (cases "undoStack dragged") auto
  let ?k = "snapshot (seen dragged)"
  let ?u = "applyOp OpUndo dragged"
  have k: "places ?k = [(1, 0, 0)]"
    using dragged_state by (simp add: places_def snapshot_def seen_def startNode_def)
  have u: "places ?u = [(1, 100, 0)]" "redoStack ?u = [?k]"
    using t by (simp_all add: applyOp_def undo_def commit_fields places_def restore_def dragged_state)
  have r: "places (applyOp OpRedo ?u) = [(1, 0, 0)]"
    using k u(2)
    by (simp add: applyOp_def[of OpRedo] redo_def commit_fields places_def restore_def)
  have i: "undoStack (initialState surface) = [] \<and> places (initialState surface) = [(1, 0, 0)]"
    by (simp add: initialState_def places_def startNode_def)
  show ?thesis using dragged_state t k u r i by simp
qed

section \<open>The two selections exclude each other\<close>

lemma mkSet_Nil_iff [simp]: "mkSet xs = [] \<longleftrightarrow> xs = []"
  by (cases xs) auto

lemma exclusive_snapshot [simp]: "exclusive (snapshot s) = exclusive s"
  by (simp add: exclusive_def snapshot_def)

lemma ok_selectOnlyFrom: "historyOk s \<Longrightarrow> historyOk (selectOnlyFrom sel i s)"
  by (simp add: historyOk_def exclusive_def selectOnlyFrom_def)

lemma ok_selectOnly: "historyOk s \<Longrightarrow> historyOk (selectOnly i s)"
  by (simp add: historyOk_def exclusive_def selectOnly_def)

lemma ok_clearSelection: "historyOk s \<Longrightarrow> historyOk (clearSelection s)"
  by (simp add: historyOk_def exclusive_def clearSelection_def)

lemma ok_selectFromArray: "historyOk s \<Longrightarrow> historyOk (selectFromArray ids s)"
  by (simp add: historyOk_def exclusive_def selectFromArray_def)

lemma ok_pushHistory: "historyOk s \<Longrightarrow> historyOk (pushHistory s)"
  by (simp add: historyOk_def pushHistory_def) (simp add: exclusive_def)

lemma ok_pushHistoryOf: "exclusive t \<Longrightarrow> historyOk s \<Longrightarrow> historyOk (pushHistoryOf t s)"
  by (simp add: historyOk_def pushHistoryOf_def) (simp add: exclusive_def)

lemma ok_removeEdges: "historyOk s \<Longrightarrow> historyOk (removeEdges ids s)"
  by (simp add: historyOk_def removeEdges_def pushHistory_def) (simp add: exclusive_def)

lemma ok_removeNodes: "historyOk s \<Longrightarrow> historyOk (removeNodes ids s)"
  by (simp add: historyOk_def removeNodes_def pushHistory_def clearSelection_def) (simp add: exclusive_def)

lemma ok_ensureEdge: "historyOk s \<Longrightarrow> historyOk (ensureEdge now a b arr s)"
  by (simp add: historyOk_def ensureEdge_def) (simp add: exclusive_def)

lemma ok_thrown: "historyOk s \<Longrightarrow> historyOk (thrown s)"
  by (simp add: historyOk_def thrown_def) (simp add: exclusive_def)

lemma ok_restore: "exclusive t \<Longrightarrow> list_all exclusive (undoStack s) \<Longrightarrow> list_all exclusive (redoStack s)
   \<Longrightarrow> historyOk (restore t s)"
  by (auto simp: historyOk_def restore_def exclusive_def)

lemma ok_undo: "historyOk s \<Longrightarrow> historyOk (undo s)"
  by (cases "undoStack s")
     (auto simp: undo_def historyOk_def restore_def exclusive_def snapshot_def seen_def)

lemma ok_redo: "historyOk s \<Longrightarrow> historyOk (redo s)"
  by (cases "redoStack s")
     (auto simp: redo_def historyOk_def restore_def exclusive_def snapshot_def seen_def)

lemma ok_import: "historyOk s \<Longrightarrow> opOk (OpImport parsed) \<Longrightarrow> historyOk (importFromText parsed s)"
  by (cases parsed)
     (auto simp: importFromText_def historyOk_def restore_def clearSelection_def exclusive_def
        docExclusive_def split: option.splits)

lemma ok_ctrlClick: "historyOk s \<Longrightarrow> historyOk (ctrlClickNode i s)"
  by (simp add: historyOk_def ctrlClickNode_def Let_def) (simp add: exclusive_def)

lemma ok_edgeDown: "historyOk s \<Longrightarrow> historyOk (onEdgePointerDown shift eid s)"
  by (simp add: historyOk_def onEdgePointerDown_def) (simp add: exclusive_def)

lemma ok_copy: "historyOk s \<Longrightarrow> historyOk (keyCopy s)"
  by (auto simp: historyOk_def keyCopy_def exclusive_def)

lemma ok_paste: "historyOk s \<Longrightarrow> historyOk (keyPaste fresh s)"
  by (auto simp: historyOk_def keyPaste_def Let_def selectFromArray_def pushHistoryOf_def
       exclusive_def snapshot_def seen_def split: option.splits prod.splits)

lemma ok_shiftClick: "historyOk s \<Longrightarrow> historyOk (shiftClickNode now i s)"
  by (auto simp: shiftClickNode_def Let_def historyOk_def selectOnly_def thrown_def
        removeEdges_def ensureEdge_def pushHistory_def exclusive_def snapshot_def
        split: option.splits)

lemma ok_press: "historyOk s \<Longrightarrow> historyOk (pressNode e i s)"
  by (auto simp: pressNode_def Let_def historyOk_def selectOnly_def thrown_def exclusive_def
        split: option.splits prod.splits)

lemma ok_downNode: "historyOk s \<Longrightarrow> historyOk (onPointerDownNode now e i s)"
  by (simp add: onPointerDownNode_def ok_shiftClick ok_ctrlClick ok_press)

lemma ok_downSvg: "historyOk s \<Longrightarrow> historyOk (onPointerDownSvg e s)"
  by (auto simp: onPointerDownSvg_def Let_def historyOk_def exclusive_def split: list.splits)

lemma ok_move: "historyOk s \<Longrightarrow> historyOk (onPointerMoveSvg e s)"
  by (auto simp: onPointerMoveSvg_def Let_def historyOk_def thrown_def exclusive_def
       split: option.splits prod.splits)

lemma ok_up: "historyOk s \<Longrightarrow> historyOk (onPointerUpSvg now e s)"
  by (auto simp: onPointerUpSvg_def Let_def historyOk_def selectFromArray_def selectOnlyFrom_def
        pushHistoryOf_def exclusive_def snapshot_def
       split: option.splits)

lemma ok_cancel: "historyOk s \<Longrightarrow> historyOk (onPointerCancelSvg e s)"
  by (simp add: onPointerCancelSvg_def historyOk_def) (simp add: exclusive_def)

lemma ok_downBg: "historyOk s \<Longrightarrow> historyOk (onPointerDownBg e s)"
  by (auto simp: onPointerDownBg_def Let_def historyOk_def clearSelection_def exclusive_def split: prod.splits)

lemma ok_addChild: "historyOk s \<Longrightarrow> historyOk (fst (addChild now i s))"
  by (auto simp: addChild_def Let_def historyOk_def pushHistory_def later_def exclusive_def snapshot_def
        split: option.splits prod.splits)

lemma ok_keyArrow: "historyOk s \<Longrightarrow> historyOk (keyArrow k s)"
  by (auto simp: keyArrow_def Let_def historyOk_def selectOnly_def exclusive_def split: option.splits)

lemma ok_runTimer: "historyOk s \<Longrightarrow> historyOk (runTimer s)"
  by (auto simp: runTimer_def historyOk_def exclusive_def split: option.splits list.splits)

lemma ok_commit: "historyOk s \<Longrightarrow> historyOk (commit s)"
  by (simp add: historyOk_def commit_def installed_def) (simp add: exclusive_def)

lemma ok_applyOp: "historyOk s \<Longrightarrow> opOk op \<Longrightarrow> historyOk (applyOp op s)"
  unfolding applyOp_def
  by (cases op)
     (simp_all add: ok_commit ok_selectOnly ok_ctrlClick ok_selectFromArray ok_clearSelection ok_edgeDown
        ok_removeNodes ok_removeEdges ok_undo ok_redo ok_import ok_copy ok_paste ok_downNode
        ok_downSvg ok_move ok_up ok_cancel ok_downBg ok_addChild ok_keyArrow ok_runTimer)

lemma ok_run: "historyOk s \<Longrightarrow> list_all opOk ops \<Longrightarrow> historyOk (run ops s)"
  unfolding run_def
  by (induction ops arbitrary: s) (simp_all add: ok_applyOp)

lemma ok_initial: "historyOk (initialState r)"
  by (simp add: historyOk_def initialState_def exclusive_def)

text \<open>
  Claim C3, as stated: in every state reachable by the public operations, import among
  them, the two selections are never both non-empty.  The import of a full snapshot
  restores the selections of the document as they are: a document that has both makes
  both non-empty.
\<close>

theorem import_both_selections:
  "selectedIds (run [OpImport (Doc bothSelected)] (initialState surface)) = [1] \<and>
   selectedEdgeIds (run [OpImport (Doc bothSelected)] (initialState surface)) = [7] \<and>
   \<not> exclusive (run [OpImport (Doc bothSelected)] (initialState surface))"
  by (simp add: run_def applyOp_def commit_fields importFromText_def bothSelected_def
        restore_def orElse_def exclusive_def)

text \<open>
  Claim C3, amended.  In every state reached from the initial state by a sequence of
  the operations (selecting, ctrl click, marquee result, clearing, edge selection,
  removing nodes or edges, undo, redo, import, copy, paste, the pointer handlers with the
  linking gestures and drags, adding a child, arrow keys, scheduled callbacks) in which
  every imported document has an empty or missing node selection or an empty or missing
  edge selection, the two selections are never both non-empty.
\<close>

theorem selection_exclusive:
  "list_all opOk ops \<Longrightarrow> exclusive (run ops (initialState r))"
  using ok_run[OF ok_initial, of ops r] by (simp add: historyOk_def)

theorem selection_exclusive_witness:
  "list_all opOk sampleOps \<and> exclusive (run sampleOps (initialState surface))"
proof -
  have h: "list_all opOk sampleOps"
    by (simp add: sampleOps_def docExclusive_def nodeSelected_def orElse_def)
  show ?thesis using h selection_exclusive [OF h, of surface] by simp
qed

section \<open>Placing a standalone node\<close>

lemma Math_hypot_0: "Math_hypot a 0 = \<bar>a\<bar>"
  by (simp add: Math_hypot_def)

lemma hypot_polar: "Math_hypot (- (cos a * r)) (- (sin a * r)) = \<bar>r\<bar>"
proof -
  have one: "cos a * cos a + sin a * sin a = 1"
    using sin_cos_squared_add2[of a] by (simp add: power2_eq_square)
  have "(cos a * r) * (cos a * r) + (sin a * r) * (sin a * r)
          = r * r * (cos a * cos a + sin a * sin a)"
    by (simp only: distrib_left ac_simps)
  then have "(cos a * r) * (cos a * r) + (sin a * r) * (sin a * r) = r * r"
    by (simp only: one mult_1_right)
  then show ?thesis by (simp add: Math_hypot_def)
qed

text \<open>The search of the earlier copy returns the first free point of its spiral, or the
  point it started from when none of them is free; the \<open>j\<close>-th point of the spiral lies at
  angle \<open>j\<close> times the golden angle and at the radius grown \<open>j div 6\<close> times.\<close>

lemma standaloneSpiral_first_free:
  "standaloneSpiral free c step k i a r =
     (case find (\<lambda>p. free (fst p) (snd p)) (spiralPoints c step k i a r) of
        Some p \<Rightarrow> p | None \<Rightarrow> c)"
  by (induction k arbitrary: i a r) (simp_all add: Let_def)

lemma spiralPoints_closed_from:
  "spiralPoints c step k i (real i * GOLDEN_ANGLE) (r0 + step * real (i div 6)) =
     map (\<lambda>j. (fst c + cos (real j * GOLDEN_ANGLE) * (r0 + step * real (j div 6)),
               snd c + sin (real j * GOLDEN_ANGLE) * (r0 + step * real (j div 6))))
       [i ..< i + k]"
proof (induction k arbitrary: i)
  case 0
  then show ?case by simp
next
  case (Suc k)
  have ang: "real i * GOLDEN_ANGLE + GOLDEN_ANGLE = real (i + 1) * GOLDEN_ANGLE"
    by (simp add: algebra_simps)
  have rad: "(if i mod 6 = 5 then r0 + step * real (i div 6) + step else r0 + step * real (i div 6))
               = r0 + step * real ((i + 1) div 6)"
  proof (cases "i mod 6 = 5")
    case True
    then have "(i + 1) div 6 = i div 6 + 1" by presburger
    with True show ?thesis by (simp add: algebra_simps)
  next
    case False
    then have "(i + 1) div 6 = i div 6" by presburger
    with False show ?thesis by simp
  qed
  have "[i ..< i + Suc k] = i # [i + 1 ..< (i + 1) + k]"
    by (simp add: upt_rec)
  then show ?case
    using Suc.IH[of "i + 1"] by (simp only: spiralPoints.simps ang rad list.map) 
qed

lemma spiralPoints_closed:
  "spiralPoints c step k 0 0 r0 =
     map (\<lambda>j. (fst c + cos (real j * GOLDEN_ANGLE) * (r0 + step * real (j div 6)),
               snd c + sin (real j * GOLDEN_ANGLE) * (r0 + step * real (j div 6))))
       [0 ..< k]"
  using spiralPoints_closed_from[of c step k 0 r0] by simp

lemma standaloneSpiral_all_occupied:
  "(\<And>x y. \<not> free x y) \<Longrightarrow> standaloneSpiral free c step k i a r = c"
  by (induction k arbitrary: i a r) (simp_all add: Let_def)

lemma standaloneSpiral_60_exhausted:
  assumes occ: "\<And>a r. 0 \<le> r \<Longrightarrow> r \<le> 120 \<Longrightarrow> \<not> free (fst c + cos a * r) (snd c + sin a * r)"
  shows "i + k = 60 \<Longrightarrow> radius = 12 + 12 * real (i div 6) \<Longrightarrow>
         standaloneSpiral free c 12 k i angle radius = c"
proof (induction k arbitrary: i angle radius)
  case 0
  then show ?case by simp
next
  case (Suc k)
  from Suc.prems have i: "i \<le> 59" by simp
  then have "i div 6 \<le> 9" by simp
  then have r: "0 \<le> radius" "radius \<le> 120" using Suc.prems(2) by simp_all
  have nf: "\<not> free (fst c + cos angle * radius) (snd c + sin angle * radius)"
    using occ[OF r] .
  have next_r: "(if i mod 6 = 5 then radius + 12 else radius) = 12 + 12 * real ((i + 1) div 6)"
  proof (cases "i mod 6 = 5")
    case True
    then have "(i + 1) div 6 = i div 6 + 1" by presburger
    with True Suc.prems(2) show ?thesis by simp
  next
    case False
    then have "(i + 1) div 6 = i div 6" by presburger
    with False Suc.prems(2) show ?thesis by simp
  qed
  have "standaloneSpiral free c 12 k (i + 1) (angle + GOLDEN_ANGLE)
          (if i mod 6 = 5 then radius + 12 else radius) = c"
    using Suc.prems(1) next_r by (intro Suc.IH) simp_all
  with nf show ?case by (simp add: Let_def)
qed

lemma initial_occupied:
  "0 \<le> r \<Longrightarrow> r \<le> 120 \<Longrightarrow>
   \<not> isPositionFree (nodes (initialState surface)) (edges (initialState surface))
        (cos a * r) (sin a * r) None"
  by (simp add: isPositionFree_def nodeClear_def initialState_def startNode_def rectRadius_def
        BASE_W_def BASE_H_def NODE_PADDING_def hypot_polar)

lemma addStandalone_v14_exhausted:
  "map (\<lambda>n. (node_id n, node_x n, node_y n))
      (nodes (fst (addStandalone_v14 (Some (0, 0)) (initialState surface))))
     = [(1, 0, 0), (2, 0, 0)]"
proof -
  have sp: "standaloneSpiral
          (\<lambda>x y. isPositionFree (nodes (initialState surface)) (edges (initialState surface)) x y None)
          (0, 0) 12 60 0 0 12 = (0, 0)"
    by (rule standaloneSpiral_60_exhausted) (simp_all add: initial_occupied)
  have occ: "\<not> isPositionFree (nodes (initialState surface)) (edges (initialState surface)) 0 0 None"
    using initial_occupied[of 0 0] by simp
  show ?thesis
    using sp occ
    by (simp add: addStandalone_v14_def Let_def)
       (simp add: initialState_def startNode_def pushHistory_def later_def newNodeId_def blankNode_def)
qed

lemma addStandalone_v14_one_node:
  "length (nodes (fst (addStandalone_v14 pt s))) = length (nodes s) + 1"
  by (auto simp: addStandalone_v14_def Let_def pushHistory_def later_def split: option.splits prod.splits)

lemma addStandalone_unmounted:
  "svg s = None \<Longrightarrow> addStandalone None s = Some (pushHistory s, 1)"
  by (simp add: addStandalone_def Let_def)

lemma addStandalone_at_point:
  "addStandalone (Some (x, y)) s = Some (s', i) \<Longrightarrow>
     nodes s' = nodes s @ [blankNode (newNodeId (nodes s)) x y ''#333'' None]"
  by (auto simp: addStandalone_def Let_def pushHistory_def later_def)

text \<open>The loops of the earlier copy and the placement in the words of the specification
  agree.\<close>

lemma standaloneSpiral_spiral_spec:
  "standaloneSpiral free c step k 0 0 r0 = firstFree free (spiral_spec c r0 step k) c"
  by (simp add: standaloneSpiral_first_free spiralPoints_closed firstFree_def spiral_spec_def)

lemma last_spiral_spec_60:
  "last (spiral_spec (0, 0) 12 12 60)
     = (cos (59 * GOLDEN_ANGLE) * 120, sin (59 * GOLDEN_ANGLE) * 120)"
proof -
  have "[0 ..< 60] = [0 ..< 59] @ [59::nat]"
    using upt_Suc_append[of 0 59] by simp
  then show ?thesis by (simp add: spiral_spec_def)
qed

lemma polar_nonzero: "(cos a * 120, sin a * 120) \<noteq> ((0::real), (0::real))"
proof
  assume "(cos a * 120, sin a * 120) = ((0::real), (0::real))"
  then have "cos a = 0" "sin a = 0" by simp_all
  then show False using sin_cos_squared_add[of a] by simp
qed

lemma spiral_spec_60_occupied:
  "list_all (\<lambda>p. \<not> isPositionFree (nodes (initialState surface)) (edges (initialState surface))
                     (fst p) (snd p) None) (spiral_spec (0, 0) 12 12 60)"
proof -
  have "\<not> isPositionFree (nodes (initialState surface)) (edges (initialState surface))
           (cos (real j * GOLDEN_ANGLE) * (12 + 12 * real (j div 6)))
           (sin (real j * GOLDEN_ANGLE) * (12 + 12 * real (j div 6))) None"
    if "j < 60" for j
  proof -
    from that have "j div 6 \<le> 9" by simp
    then have "12 + 12 * real (j div 6) \<le> 120" by simp
    then show ?thesis by (intro initial_occupied) simp_all
  qed
  then show ?thesis by (simp add: spiral_spec_def list_all_iff)
qed

text \<open>The earlier copy always returns, having pushed one snapshot and added exactly one
  node with the next id, on the place the specification describes, except that an
  exhausted search keeps the point it started from.\<close>

lemma addStandalone_v14_search:
  "nodes (fst (addStandalone_v14 pt s))
     = nodes s @ [blankNode (newNodeId (nodes s)) (fst (placement_spec pt s))
                    (snd (placement_spec pt s)) ''#333'' None] \<and>
   snd (addStandalone_v14 pt s) = newNodeId (nodes s) \<and>
   edges (fst (addStandalone_v14 pt s)) = edges s \<and>
   undoStack (fst (addStandalone_v14 pt s)) = snapshot s # undoStack s"
  by (cases pt)
     (auto simp: addStandalone_v14_def placement_spec_def standaloneSpiral_spiral_spec Let_def
        pushHistory_def later_def split: option.splits prod.splits)

text \<open>With node 1 at the origin and the origin requested, all 60 points of the spiral are
  occupied, the last of them is not the origin, and the earlier copy places node 2 on the
  origin.\<close>

lemma addStandalone_v14_keeps_requested_point:
  "list_all (\<lambda>p. \<not> isPositionFree (nodes (initialState surface)) (edges (initialState surface))
                     (fst p) (snd p) None) (spiral_spec (0, 0) 12 12 60) \<and>
   map (\<lambda>n. (node_id n, node_x n, node_y n))
      (nodes (fst (addStandalone_v14 (Some (0, 0)) (initialState surface))))
     = [(1, 0, 0), (2, 0, 0)] \<and>
   last (spiral_spec (0, 0) 12 12 60) \<noteq> (0, 0)"
proof -
  have "last (spiral_spec (0, 0) 12 12 60) \<noteq> (0, 0)"
    unfolding last_spiral_spec_60 by (rule polar_nonzero)
  then show ?thesis
    using spiral_spec_60_occupied addStandalone_v14_exhausted by simp
qed

text \<open>
  Claim C4.  \<^verbatim>\<open>addStandalone\<close> searches a free position along a golden-angle spiral when
  the requested point is occupied, within 60 to 120 turns, and so always places exactly
  one node.  In \<^verbatim>\<open>App.tsx\<close> the branch for an occupied point is empty: with node 1 at the
  origin, the point (70, 0) is occupied (it is 70 away from node 1, less than
  60 + 60 + 8), and the new node 2 is placed on it without any search.
\<close>

theorem addStandalone_places_on_occupied_point:
  "\<not> isPositionFree (nodes (initialState surface)) (edges (initialState surface)) 70 0 None \<and>
   map_option (\<lambda>r. (map (\<lambda>n. (node_id n, node_x n, node_y n)) (nodes (fst r)), snd r))
     (addStandalone (Some (70, 0)) (initialState surface)) = Some ([(1, 0, 0), (2, 70, 0)], 2)"
  by (simp add: isPositionFree_def nodeClear_def initialState_def startNode_def Math_hypot_0
        rectRadius_def BASE_W_def BASE_H_def NODE_PADDING_def addStandalone_def pushHistory_def
        newNodeId_def blankNode_def later_def Let_def)

section \<open>Arrow-key navigation\<close>

lemma Math_hypot_eq_0: "Math_hypot a b = 0 \<longleftrightarrow> a = 0 \<and> b = 0"
  by (auto simp: Math_hypot_def)

lemma dirOf_unit: "Math_hypot (fst (dirOf k)) (snd (dirOf k)) = 1"
  by (cases k) (simp_all add: dirOf_def Math_hypot_def)

lemma candidates_eq:
  "candidates ns sel cur k = List.map_filter (candOf sel cur (fst (dirOf k)) (snd (dirOf k))) ns"
  by (simp add: candidates_def Let_def dirOf_unit)


lemma candOf_forward:
  "node_id n \<noteq> sel \<Longrightarrow> forward k cur n \<Longrightarrow>
     \<exists>c. candOf sel cur (fst (dirOf k)) (snd (dirOf k)) n = Some c"
proof -
  assume a: "node_id n \<noteq> sel" "forward k cur n"
  have "\<not> (node_x n - node_x cur = 0 \<and> node_y n - node_y cur = 0)"
    using a(2) by (auto simp: forward_def)
  then have "Math_hypot (node_x n - node_x cur) (node_y n - node_y cur) \<noteq> 0"
    by (simp add: Math_hypot_eq_0)
  then show ?thesis using a by (auto simp: candOf_def Let_def forward_def)
qed

lemma mem_map_filter:
  "y \<in> set (List.map_filter f xs) \<longleftrightarrow> (\<exists>x \<in> set xs. f x = Some y)"
  by (induction xs) (auto split: option.splits)


lemma candidates_nonempty:
  "n \<in> set ns \<Longrightarrow> node_id n \<noteq> sel \<Longrightarrow> forward k cur n \<Longrightarrow> candidates ns sel cur k \<noteq> []"
proof -
  assume a: "n \<in> set ns" "node_id n \<noteq> sel" "forward k cur n"
  from candOf_forward[OF a(2,3)] obtain c where
    "candOf sel cur (fst (dirOf k)) (snd (dirOf k)) n = Some c" by blast
  with a(1) have "c \<in> set (candidates ns sel cur k)"
    by (auto simp: candidates_eq mem_map_filter)
  then show ?thesis by auto
qed






lemma pickWithin_pair:
  "cand_angle a \<le> m \<Longrightarrow> cand_angle c \<le> m \<Longrightarrow>
     pickWithin [a, c] m = Some (if beats c a then c else a)"
  by (simp add: pickWithin_def pickStep_def)





lemma keyArrow_selects:
  "editingId s = None \<Longrightarrow> selectedId s = Some sel \<Longrightarrow> findNode (keyNodes s) sel = Some cur \<Longrightarrow>
   chooseCand (candidates (keyNodes s) sel cur k) = Some b \<Longrightarrow>
   selectedId (keyArrow k s) = Some (cand_id b) \<and> selectedIds (keyArrow k s) = [cand_id b] \<and>
   selectedEdgeIds (keyArrow k s) = []"
  by (auto simp: keyArrow_def Let_def selectOnly_def split: option.splits)






lemma hypot_12_5: "Math_hypot 12 5 = 13"
proof -
  have "sqrt ((13::real)\<^sup>2) = 13" by simp
  then show ?thesis by (simp add: Math_hypot_def power2_eq_square)
qed

lemma arccos_12_13: "0 < arccos (12 / 13) \<and> arccos (12 / 13) \<le> 30 * DEG"
proof -
  have "arccos 1 < arccos (12 / 13 :: real)"
    by (rule arccos_less_arccos) simp_all
  then have pos: "0 < arccos (12 / 13 :: real)" by simp
  have "sqrt 3 \<le> 24 / 13"
    by (rule real_le_lsqrt) (simp_all add: power2_eq_square)
  then have c2: "cos (pi / 6) \<le> 12 / 13" by (simp add: cos_30)
  have c1: "- 1 \<le> cos (pi / 6)" by simp
  have "arccos (12 / 13) \<le> arccos (cos (pi / 6))"
    by (rule arccos_le_arccos[OF c1 c2]) simp
  also have "arccos (cos (pi / 6)) = pi / 6"
    by (rule arccos_cos) (simp_all add: field_simps)
  finally have "arccos (12 / 13) \<le> 30 * DEG" by (simp add: DEG_def)
  with pos show ?thesis by simp
qed

lemma navState_view:
  "keyNodes navState = nodes navState" "editingId navState = None"
  "selectedId navState = Some 1" "findNode (nodes navState) 1 = Some startNode"
  by (simp_all add: navState_def installed_def initialState_def findNode_def startNode_def)

lemma navState_candidates:
  "candidates (nodes navState) 1 startNode ArrowRight =
     [\<lparr> cand_id = 2, cand_dist = 100, cand_angle = 0 \<rparr>,
      \<lparr> cand_id = 3, cand_dist = 13, cand_angle = arccos (12 / 13) \<rparr>]"
  by (simp add: candidates_eq navState_def installed_def initialState_def startNode_def
        blankNode_def candOf_def dirOf_def Math_hypot_0 hypot_12_5 Let_def)

lemma navState_choice:
  "chooseCand (candidates (nodes navState) 1 startNode ArrowRight) =
     Some \<lparr> cand_id = 3, cand_dist = 13, cand_angle = arccos (12 / 13) \<rparr>"
  using arccos_12_13
  by (simp add: navState_candidates chooseCand_def pickWithin_def pickStep_def beats_def DEG_def)


text \<open>The positions are those of the render the handler belongs to.  After a drag of the
  selected node 1 by 200 pixels to the right, nodes 2 and 3 lie behind it; the handler
  still sees node 1 at the origin, and the right arrow selects node 3.\<close>

lemma navState_dragged:
  "places (run (dragNode1 200) navState) = [(1, 200, 0), (2, 100, 0), (3, 12, 5)]"
  "keyNodes (run (dragNode1 200) navState) = nodes navState"
  "editingId (run (dragNode1 200) navState) = None"
  "selectedId (run (dragNode1 200) navState) = Some 1"
  by (simp_all add: navState_def dragNode1_def run_def applyOp_def commit_def installed_def places_def
        onPointerUpSvg_def onPointerMoveSvg_def onPointerDownSvg_def
        onPointerDownNode_def pressNode_def toWorld_def initialState_def surface_def ev_def
        startNode_def blankNode_def findNode_def mapDelete_def snapshot_def
        pushHistoryOf_def idleLinking_def noMarquee_def Let_def)

lemma arrow_after_drag_selects_behind:
  "places (run (dragNode1 200) navState) = [(1, 200, 0), (2, 100, 0), (3, 12, 5)] \<and>
   selectedId (applyOp (OpKeyArrow ArrowRight) (run (dragNode1 200) navState)) = Some 3 \<and>
   \<not> forward ArrowRight (startNode \<lparr> node_x := 200 \<rparr>) (blankNode 3 12 5 ''#333'' None)"
proof -
  have "selectedId (keyArrow ArrowRight (run (dragNode1 200) navState)) = Some 3"
    using keyArrow_selects[of "run (dragNode1 200) navState" 1 startNode ArrowRight]
      navState_choice
    by (simp add: navState_view navState_dragged)
  then show ?thesis
    by (simp add: navState_dragged(1) applyOp_def commit_fields forward_def dirOf_def
          blankNode_def)
qed



end
